theory Spec2Isabelle
  imports Complex_Main
begin

section \<open>Constants (constants.ts)\<close>

text \<open>
  JavaScript numbers are modelled as mathematical reals, chunk coordinates (results of
  \<^verbatim>\<open>Math.floor\<close>) as integers. Rounding, NaN and infinities of IEEE doubles are
  outside this model.
\<close>

definition CHUNK_SIZE :: real where "CHUNK_SIZE = 100"
definition RENDER_DISTANCE :: int where "RENDER_DISTANCE = 5"
definition WATER_LEVEL :: real where "WATER_LEVEL = 1.5"
definition STAMINA_MAX :: real where "STAMINA_MAX = 100"
definition FLIGHT_COST :: real where "FLIGHT_COST = 25"
definition REGEN_RATE :: real where "REGEN_RATE = 15"

datatype BiomeType = PLAINS | FOREST | DESERT | SNOW | WATER | MOUNTAIN | SAKURA

section \<open>Math.random as explicit state\<close>

text \<open>
  \<^verbatim>\<open>Math.random()\<close> is global hidden state. It is modelled as a stream of draws
  together with the position of the next draw; every call returns the draw at that
  position and advances it.
\<close>

type_synonym Rng = "(nat \<Rightarrow> real) \<times> nat"

definition Math_random :: "Rng \<Rightarrow> real \<times> Rng" where
  "Math_random g = (fst g (snd g), (fst g, Suc (snd g)))"

section \<open>World generator data (WorldGenerator.ts)\<close>

record Obstacle =
  obs_x :: real
  obs_z :: real
  obs_r :: real

text \<open>
  A generated piece of geometry. Its triangles are a rendering matter; the model keeps
  where it was created and the size that was drawn for it.
\<close>

datatype Geo = Geo real real real real

text \<open>One instance matrix of the grass meshes: position, rotation about y, scale.\<close>

datatype Blade = Blade real real real real real

text \<open>
  The children that \<^verbatim>\<open>generateChunk\<close> adds to the chunk group. The terrain mesh
  carries the per-vertex heights written by \<^verbatim>\<open>positions.setY\<close>; the monolith mesh
  carries its local position and is the only child with \<^verbatim>\<open>userData.isPOI\<close>.
\<close>

datatype Object3D =
    TerrainMesh "real list"
  | GrassMesh "Blade list"
  | SakuraGrassMesh "Blade list"
  | MonolithMesh real real real
  | TrunkMesh "Geo list"
  | OakLeafMesh "Geo list"
  | PineLeafMesh "Geo list"
  | SakuraLeafMesh "Geo list"
  | CactusMesh "Geo list"
  | StoneMesh "Geo list"

record Geos =
  trunks :: "Geo list"
  oakLeaves :: "Geo list"
  pineLeaves :: "Geo list"
  sakuraLeaves :: "Geo list"
  cacti :: "Geo list"
  stones :: "Geo list"

text \<open>The value returned by \<^verbatim>\<open>generateChunk\<close>: the group, the colliders, the obstacles.\<close>

record Chunk =
  groupPosition :: "real \<times> real \<times> real"
  children :: "Object3D list"
  chunkColliders :: "Object3D list"
  chunkObstacles :: "Obstacle list"

text \<open>
  What the code takes from outside this repository: the three module-level noise
  functions (\<^verbatim>\<open>createNoise2D()\<close>, fixed when the module is loaded), the local
  \<open>(x, z)\<close> of the vertices of the terrain \<^verbatim>\<open>PlaneGeometry\<close> in index order, and
  the height of the first hit of the downward ray of \<^verbatim>\<open>Raycaster.intersectObjects\<close>
  over the engine's collider list (each collider with the id of its chunk group).
\<close>

record Env =
  noise2D :: "real \<Rightarrow> real \<Rightarrow> real"
  continentNoise :: "real \<Rightarrow> real \<Rightarrow> real"
  detailNoise :: "real \<Rightarrow> real \<Rightarrow> real"
  planeVertices :: "(real \<times> real) list"
  intersectObjects :: "(nat \<times> Object3D) list \<Rightarrow> real \<Rightarrow> real \<Rightarrow> real option"

text \<open>\<^verbatim>\<open>THREE.MathUtils.lerp(x, y, t)\<close>.\<close>

definition lerp :: "real \<Rightarrow> real \<Rightarrow> real \<Rightarrow> real" where
  "lerp x y t = (1 - t) * x + t * y"

section \<open>Height and biome field\<close>

text \<open>
  \<^verbatim>\<open>getBiome\<close>. The draw of \<^verbatim>\<open>Math.random()\<close> is made only when the two earlier
  returns were not taken and \<open>height > 30\<close> (the right operand of \<^verbatim>\<open>&&\<close>).
\<close>

definition getBiome :: "Env \<Rightarrow> real \<Rightarrow> real \<Rightarrow> real \<Rightarrow> Rng \<Rightarrow> BiomeType \<times> Rng" where
  "getBiome E x z height g =
     (if height < WATER_LEVEL + 0.2 then (WATER, g)
      else if height > 45 then (MOUNTAIN, g)
      else
        let (snow, g1) =
              (if height > 30 then (let (u, g') = Math_random g in (u > 0.5, g'))
               else (False, g))
        in if snow then (SNOW, g1)
           else
             let temp = noise2D E (x * 0.0015) (z * 0.0015)
             in if temp < - 0.4 then (DESERT, g1)
                else if temp > 0.5 then (FOREST, g1)
                else if temp > 0.2 \<and> temp \<le> 0.5 then (SAKURA, g1)
                else (PLAINS, g1))"

text \<open>
  The value of \<open>h\<close> in \<^verbatim>\<open>getHeight\<close> when control reaches the coastline test:
  the land branch or the ocean branch, before any blending.
\<close>

definition preBlendHeight :: "Env \<Rightarrow> real \<Rightarrow> real \<Rightarrow> real" where
  "preBlendHeight E x z =
     (let base = continentNoise E (x * 0.0015) (z * 0.0015) + 0.15
      in if base > 0 then
           let h = base * 15;
               ridge = 1.0 - \<bar>noise2D E (x * 0.004) (z * 0.004)\<bar>;
               h = h + ridge ^ 3 * 45 * base;
               h = h + noise2D E (x * 0.03) (z * 0.03) * 1.5
           in max h (WATER_LEVEL + 0.5)
         else
           let h = base * 20
           in max h (- 15))"

definition getHeight :: "Env \<Rightarrow> real \<Rightarrow> real \<Rightarrow> real" where
  "getHeight E x z =
     (let h = preBlendHeight E x z
      in if h > WATER_LEVEL - 1 \<and> h < WATER_LEVEL + 2
         then lerp h (WATER_LEVEL + 0.5) 0.4
         else h)"

definition seededRandom :: "real \<Rightarrow> real" where
  "seededRandom seed = (let x = sin seed * 10000 in x - of_int \<lfloor>x\<rfloor>)"

section \<open>Flora and rock generators\<close>

text \<open>
  Each generator draws from \<^verbatim>\<open>Math.random()\<close> in the order of the source and
  returns the geometry it built.
\<close>

definition createOakTree :: "real \<Rightarrow> real \<Rightarrow> real \<Rightarrow> Rng \<Rightarrow> (Geo \<times> Geo) \<times> Rng" where
  "createOakTree x y z g =
     (let (u, g1) = Math_random g; scale = 0.8 + u * 0.6
      in ((Geo x y z scale, Geo x y z scale), g1))"

definition createSakuraTree :: "real \<Rightarrow> real \<Rightarrow> real \<Rightarrow> Rng \<Rightarrow> (Geo \<times> Geo) \<times> Rng" where
  "createSakuraTree x y z g =
     (let (u, g1) = Math_random g; scale = 1.0 + u * 0.4
      in ((Geo x y z scale, Geo x y z scale), g1))"

definition createPineTree :: "real \<Rightarrow> real \<Rightarrow> real \<Rightarrow> Rng \<Rightarrow> (Geo \<times> Geo) \<times> Rng" where
  "createPineTree x y z g =
     (let (u, g1) = Math_random g; scale = 1.0 + u * 0.8
      in ((Geo x y z scale, Geo x y z scale), g1))"

text \<open>The second draw of the cactus decides whether it grows an arm.\<close>

definition createCactus :: "real \<Rightarrow> real \<Rightarrow> real \<Rightarrow> Rng \<Rightarrow> Geo \<times> Rng" where
  "createCactus x y z g =
     (let (u, g1) = Math_random g; height = 2 + u * 2;
          (arm, g2) = Math_random g1
      in (Geo x y z height, g2))"

text \<open>The two draws of the rock are its rotations about x and y.\<close>

definition createRock :: "real \<Rightarrow> real \<Rightarrow> real \<Rightarrow> real \<Rightarrow> Rng \<Rightarrow> Geo \<times> Rng" where
  "createRock x y z scale g =
     (let (rx, g1) = Math_random g; (ry, g2) = Math_random g1
      in (Geo x y z scale, g2))"

section \<open>Chunk generator\<close>

text \<open>
  One grass instance: jittered position, height under it, rotation and scale, with the
  four draws in source order. The two grass branches differ in the scale spread only.
\<close>

definition grassBlade ::
  "Env \<Rightarrow> real \<Rightarrow> real \<Rightarrow> real \<Rightarrow> real \<Rightarrow> real \<Rightarrow> Rng \<Rightarrow> Blade \<times> Rng" where
  "grassBlade E chunkWorldX chunkWorldZ localX localZ spread g =
     (let (u1, g1) = Math_random g; gx = localX + (u1 - 0.5) * 2;
          (u2, g2) = Math_random g1; gz = localZ + (u2 - 0.5) * 2;
          gy = getHeight E (gx + chunkWorldX) (gz + chunkWorldZ);
          (u3, g3) = Math_random g2; rot = u3 * pi;
          (u4, g4) = Math_random g3; s = 0.8 + u4 * spread
      in (Blade gx gy gz rot s, g4))"

text \<open>
  The body of the terrain loop for one vertex. The accumulator is the height array so
  far, the two lists of grass matrices and the random state. Vertex colours are left
  out: they draw nothing from \<^verbatim>\<open>Math.random()\<close> and feed only the renderer.
\<close>

definition terrainVertex ::
  "Env \<Rightarrow> real \<Rightarrow> real \<Rightarrow> real \<times> real \<Rightarrow>
   real list \<times> Blade list \<times> Blade list \<times> Rng \<Rightarrow> real list \<times> Blade list \<times> Blade list \<times> Rng" where
  "terrainVertex E chunkWorldX chunkWorldZ v acc =
     (case v of (localX, localZ) \<Rightarrow>
      case acc of (hs, grassPositions, sakuraGrassPositions, g) \<Rightarrow>
        let worldX = localX + chunkWorldX;
            worldZ = localZ + chunkWorldZ;
            y = getHeight E worldX worldZ;
            (biome, g1) = getBiome E worldX worldZ y g
        in if y > WATER_LEVEL + 2 \<and> y < 40 then
             let grassNoise = detailNoise E (worldX * 0.2) (worldZ * 0.2)
             in if biome = PLAINS \<or> biome = FOREST then
                  (if grassNoise > 0.1 then
                     let (u, g2) = Math_random g1
                     in if u > 0.7 then
                          let (b, g3) = grassBlade E chunkWorldX chunkWorldZ localX localZ 0.5 g2
                          in (hs @ [y], grassPositions @ [b], sakuraGrassPositions, g3)
                        else (hs @ [y], grassPositions, sakuraGrassPositions, g2)
                   else (hs @ [y], grassPositions, sakuraGrassPositions, g1))
                else if biome = SAKURA then
                  (if grassNoise > 0.0 then
                     let (u, g2) = Math_random g1
                     in if u > 0.6 then
                          let (b, g3) = grassBlade E chunkWorldX chunkWorldZ localX localZ 0.4 g2
                          in (hs @ [y], grassPositions, sakuraGrassPositions @ [b], g3)
                        else (hs @ [y], grassPositions, sakuraGrassPositions, g2)
                   else (hs @ [y], grassPositions, sakuraGrassPositions, g1))
                else (hs @ [y], grassPositions, sakuraGrassPositions, g1)
           else (hs @ [y], grassPositions, sakuraGrassPositions, g1))"

text \<open>
  The values of the loop variable of
  \<^verbatim>\<open>for (let x = -CHUNK_SIZE/2; x < CHUNK_SIZE/2; x += density)\<close>, from a start value.
\<close>

function scatterGrid :: "real \<Rightarrow> real list" where
  "scatterGrid x = (if x < CHUNK_SIZE / 2 then x # scatterGrid (x + 4) else [])"
  by pat_completeness auto
termination
proof (relation "measure (\<lambda>x. nat \<lceil>(CHUNK_SIZE / 2 - x) / 4\<rceil>)")
  show "wf (measure (\<lambda>x. nat \<lceil>(CHUNK_SIZE / 2 - x) / 4\<rceil>))" by simp
next
  fix x :: real
  assume lt: "x < CHUNK_SIZE / 2"
  have eq: "(CHUNK_SIZE / 2 - (x + 4)) / 4 = (CHUNK_SIZE / 2 - x) / 4 - 1" by simp
  have pos: "0 < \<lceil>(CHUNK_SIZE / 2 - x) / 4\<rceil>" using lt by simp
  have "\<lceil>(CHUNK_SIZE / 2 - (x + 4)) / 4\<rceil> = \<lceil>(CHUNK_SIZE / 2 - x) / 4\<rceil> - 1"
    unfolding eq by (rule ceiling_diff_one)
  then show "(x + 4, x) \<in> measure (\<lambda>x. nat \<lceil>(CHUNK_SIZE / 2 - x) / 4\<rceil>)"
    using pos by simp
qed

text \<open>
  Which rule of the scatter pass fires for a sample, one constructor per branch of the
  source's chain of tests. \<open>Pebble\<close> and \<open>Boulder\<close> carry the drawn scale.
\<close>

datatype Scatter = Pebble real | Boulder real | PineTree | OakTree | SakuraTree | Cactus | NoObject

definition scatterRule :: "BiomeType \<Rightarrow> real \<Rightarrow> Rng \<Rightarrow> Scatter \<times> Rng" where
  "scatterRule biome rVal g =
     (if rVal < 0.15 \<and> biome \<noteq> WATER \<and> biome \<noteq> SNOW then
        let (u, g1) = Math_random g in (Pebble (0.2 + u * 0.3), g1)
      else if rVal < 0.03 \<and> biome \<noteq> WATER then
        let (u, g1) = Math_random g in (Boulder (0.8 + u * 1.2), g1)
      else if biome = FOREST \<and> rVal > 0.4 then
        (if rVal > 0.75 then PineTree else OakTree, g)
      else if biome = SAKURA \<and> rVal > 0.65 then (SakuraTree, g)
      else if biome = PLAINS \<and> rVal > 0.97 then (OakTree, g)
      else if biome = DESERT \<and> rVal > 0.96 then (Cactus, g)
      else (NoObject, g))"

text \<open>
  The sample of grid cell \<open>(x, z)\<close>: the jittered point, the water cutoff
  (\<open>None\<close> is the \<^verbatim>\<open>continue\<close>), the biome, the value \<open>rVal\<close> and the rule that fires.
\<close>

definition scatterAt ::
  "Env \<Rightarrow> real \<Rightarrow> real \<Rightarrow> real \<Rightarrow> real \<Rightarrow> Rng \<Rightarrow> Scatter option \<times> Rng" where
  "scatterAt E chunkWorldX chunkWorldZ x z g =
     (let density = 4;
          lx = x + (seededRandom (x * 11 + z) - 0.5) * density;
          lz = z + (seededRandom (z * 13 + x) - 0.5) * density;
          wx = lx + chunkWorldX;
          wz = lz + chunkWorldZ;
          y = getHeight E wx wz
      in if y \<le> WATER_LEVEL + 0.5 then (None, g)
         else
           let (biome, g1) = getBiome E wx wz y g;
               rVal = seededRandom (wx * wz);
               (sc, g2) = scatterRule biome rVal g1
           in (Some sc, g2))"

text \<open>What the branch that fired pushes to the geometry lists and the obstacle list.\<close>

fun place ::
  "Scatter \<Rightarrow> real \<Rightarrow> real \<Rightarrow> real \<Rightarrow> real \<Rightarrow> real \<Rightarrow>
   Geos \<times> Obstacle list \<times> Rng \<Rightarrow> Geos \<times> Obstacle list \<times> Rng" where
  "place (Pebble s) lx y lz wx wz (geos, obstacles, g) =
     (let (rock, g1) = createRock lx y lz s g
      in (geos\<lparr>stones := stones geos @ [rock]\<rparr>, obstacles, g1))"
| "place (Boulder s) lx y lz wx wz (geos, obstacles, g) =
     (let (rock, g1) = createRock lx y lz s g
      in (geos\<lparr>stones := stones geos @ [rock]\<rparr>,
          obstacles @ [\<lparr>obs_x = wx, obs_z = wz, obs_r = s * 0.8\<rparr>], g1))"
| "place PineTree lx y lz wx wz (geos, obstacles, g) =
     (let ((trunk, leaves), g1) = createPineTree lx y lz g
      in (geos\<lparr>trunks := trunks geos @ [trunk], pineLeaves := pineLeaves geos @ [leaves]\<rparr>,
          obstacles @ [\<lparr>obs_x = wx, obs_z = wz, obs_r = 0.8\<rparr>], g1))"
| "place OakTree lx y lz wx wz (geos, obstacles, g) =
     (let ((trunk, leaves), g1) = createOakTree lx y lz g
      in (geos\<lparr>trunks := trunks geos @ [trunk], oakLeaves := oakLeaves geos @ [leaves]\<rparr>,
          obstacles @ [\<lparr>obs_x = wx, obs_z = wz, obs_r = 0.8\<rparr>], g1))"
| "place SakuraTree lx y lz wx wz (geos, obstacles, g) =
     (let ((trunk, leaves), g1) = createSakuraTree lx y lz g
      in (geos\<lparr>trunks := trunks geos @ [trunk], sakuraLeaves := sakuraLeaves geos @ [leaves]\<rparr>,
          obstacles @ [\<lparr>obs_x = wx, obs_z = wz, obs_r = 0.6\<rparr>], g1))"
| "place Cactus lx y lz wx wz (geos, obstacles, g) =
     (let (c, g1) = createCactus lx y lz g
      in (geos\<lparr>cacti := cacti geos @ [c]\<rparr>,
          obstacles @ [\<lparr>obs_x = wx, obs_z = wz, obs_r = 0.5\<rparr>], g1))"
| "place NoObject lx y lz wx wz (geos, obstacles, g) = (geos, obstacles, g)"

text \<open>The body of the inner scatter loop.\<close>

definition scatterSample ::
  "Env \<Rightarrow> real \<Rightarrow> real \<Rightarrow> real \<Rightarrow> real \<Rightarrow>
   Geos \<times> Obstacle list \<times> Rng \<Rightarrow> Geos \<times> Obstacle list \<times> Rng" where
  "scatterSample E chunkWorldX chunkWorldZ x z acc =
     (case acc of (geos, obstacles, g) \<Rightarrow>
      let density = 4;
          lx = x + (seededRandom (x * 11 + z) - 0.5) * density;
          lz = z + (seededRandom (z * 13 + x) - 0.5) * density;
          wx = lx + chunkWorldX;
          wz = lz + chunkWorldZ;
          y = getHeight E wx wz;
          (fired, g2) = scatterAt E chunkWorldX chunkWorldZ x z g
      in (case fired of
            None \<Rightarrow> acc
          | Some sc \<Rightarrow> place sc lx y lz wx wz (geos, obstacles, g2)))"

text \<open>\<^verbatim>\<open>mergeAndAdd\<close>: a merged mesh when the list is not empty, otherwise null.\<close>

definition mergeAndAdd :: "Geo list \<Rightarrow> (Geo list \<Rightarrow> Object3D) \<Rightarrow> Object3D option" where
  "mergeAndAdd list mat = (if length list > 0 then Some (mat list) else None)"

text \<open>The terrain loop over all vertices, from empty lists.\<close>

definition terrainLoop ::
  "Env \<Rightarrow> real \<Rightarrow> real \<Rightarrow> Rng \<Rightarrow> real list \<times> Blade list \<times> Blade list \<times> Rng" where
  "terrainLoop E chunkWorldX chunkWorldZ g =
     foldl (\<lambda>acc v. terrainVertex E chunkWorldX chunkWorldZ v acc) ([], [], [], g)
       (planeVertices E)"

text \<open>The two nested scatter loops over the grid.\<close>

definition scatterLoops ::
  "Env \<Rightarrow> real \<Rightarrow> real \<Rightarrow> Geos \<times> Obstacle list \<times> Rng \<Rightarrow> Geos \<times> Obstacle list \<times> Rng" where
  "scatterLoops E chunkWorldX chunkWorldZ acc =
     (let grid = scatterGrid (- CHUNK_SIZE / 2)
      in foldl (\<lambda>acc x. foldl (\<lambda>acc z. scatterSample E chunkWorldX chunkWorldZ x z acc) acc grid)
           acc grid)"

definition generateChunk :: "Env \<Rightarrow> int \<Rightarrow> int \<Rightarrow> Rng \<Rightarrow> Chunk \<times> Rng" where
  "generateChunk E chunkX chunkZ g =
     (let chunkWorldX = of_int chunkX * CHUNK_SIZE;
          chunkWorldZ = of_int chunkZ * CHUNK_SIZE;
          chunkSeed = of_int chunkX * 49297 + of_int chunkZ * 92713;
          (hs, grassPositions, sakuraGrassPositions, g1) =
            terrainLoop E chunkWorldX chunkWorldZ g;
          terrain = TerrainMesh hs;
          grassMesh = (if length grassPositions > 0 then [GrassMesh grassPositions] else []);
          sGrassMesh =
            (if length sakuraGrassPositions > 0 then [SakuraGrassMesh sakuraGrassPositions]
             else []);
          (mMesh, obstacles) =
            (if seededRandom chunkSeed > 0.97 then
               let hy = getHeight E (0 + chunkWorldX) (0 + chunkWorldZ)
               in if hy > WATER_LEVEL + 2
                  then ([MonolithMesh 0 (hy - 3) 0],
                        [\<lparr>obs_x = 0 + chunkWorldX, obs_z = 0 + chunkWorldZ, obs_r = 4.0\<rparr>])
                  else ([], [])
             else ([], []));
          (geos, obstacles, g2) =
            scatterLoops E chunkWorldX chunkWorldZ
              (\<lparr>trunks = [], oakLeaves = [], pineLeaves = [], sakuraLeaves = [], cacti = [],
                stones = []\<rparr>, obstacles, g1);
          stoneMesh = mergeAndAdd (stones geos) StoneMesh;
          merged =
            List.map_filter id
              [mergeAndAdd (trunks geos) TrunkMesh, mergeAndAdd (oakLeaves geos) OakLeafMesh,
               mergeAndAdd (pineLeaves geos) PineLeafMesh,
               mergeAndAdd (sakuraLeaves geos) SakuraLeafMesh,
               mergeAndAdd (cacti geos) CactusMesh, stoneMesh];
          colliders = [terrain] @ (case stoneMesh of Some m \<Rightarrow> [m] | None \<Rightarrow> [])
      in (\<lparr>groupPosition = (chunkWorldX, 0, chunkWorldZ),
           children = [terrain] @ grassMesh @ sGrassMesh @ mMesh @ merged,
           chunkColliders = colliders,
           chunkObstacles = obstacles\<rparr>, g2))"

section \<open>Engine state (GameEngine.ts)\<close>

text \<open>The entries of \<^verbatim>\<open>keysPressed\<close> that the engine reads, named as in \<^verbatim>\<open>KEYS\<close>.\<close>

record Keys =
  FORWARD :: bool
  BACKWARD :: bool
  LEFT :: bool
  RIGHT :: bool
  JUMP :: bool
  SPRINT :: bool

text \<open>
  \<^verbatim>\<open>ChunkData\<close>. The group \<^verbatim>\<open>mesh\<close> is an object with identity: \<open>mesh_id\<close> is
  a number given to it when it is created, unique among all groups ever created.
\<close>

record ChunkData =
  mesh_id :: nat
  mesh_position :: "real \<times> real \<times> real"
  mesh_children :: "Object3D list"
  obstacles :: "Obstacle list"

text \<open>
  The fields of \<^verbatim>\<open>GameEngine\<close> that the simulation reads and writes. The key
  \<^verbatim>\<open>`${cx},${cz}`\<close> of the chunk table is modelled as the pair \<open>(cx, cz)\<close> that
  \<^verbatim>\<open>key.split(',').map(Number)\<close> recovers from it; the table is a list of entries in
  insertion order, as a \<^verbatim>\<open>Map\<close> iterates. A collider is a child of some chunk group:
  it is kept with the id of that group. The player's quaternion only ever holds the
  yaw \<^verbatim>\<open>rotation.y\<close>. Camera, lights, water, clouds and particles are not modelled.
\<close>

record Engine =
  position :: "real \<times> real \<times> real"
  rotation_y :: real
  playerVelocity :: "real \<times> real \<times> real"
  playerOnGround :: bool
  keysPressed :: Keys
  lastTime :: real
  stamina :: real
  timeOfDay :: real
  chunks :: "((int \<times> int) \<times> ChunkData) list"
  colliders :: "(nat \<times> Object3D) list"
  poiNearby :: "(real \<times> real \<times> real) option"
  nextId :: nat
  random :: Rng

text \<open>\<^verbatim>\<open>PlayerStats\<close>, the snapshot handed to \<^verbatim>\<open>statsCallback\<close>.\<close>

record PlayerStats =
  stats_position :: "real \<times> real \<times> real"
  stats_stamina :: real
  isFlying :: bool
  stats_biome :: BiomeType
  stats_timeOfDay :: real

text \<open>
  The engine as the constructor leaves it before its first frame: \<open>t0\<close> is the value of
  \<^verbatim>\<open>performance.now()\<close> stored in \<^verbatim>\<open>lastTime\<close>, \<open>g\<close> the state of
  \<^verbatim>\<open>Math.random()\<close> at that point.
\<close>

definition newEngine :: "real \<Rightarrow> Rng \<Rightarrow> Engine" where
  "newEngine t0 g =
     \<lparr>position = (0, 80, 0), rotation_y = 0, playerVelocity = (0, 0, 0),
      playerOnGround = False,
      keysPressed = \<lparr>FORWARD = False, BACKWARD = False, LEFT = False, RIGHT = False,
                     JUMP = False, SPRINT = False\<rparr>,
      lastTime = t0, stamina = STAMINA_MAX, timeOfDay = 0.2, chunks = [], colliders = [],
      poiNearby = None, nextId = 0, random = g\<rparr>"

section \<open>Chunk streaming\<close>

text \<open>
  The eviction test for one entry of the table. Deleting the current entry while a
  \<^verbatim>\<open>Map\<close> is iterated is allowed, and every entry present at the start is visited.
\<close>

definition unloadChunk :: "int \<Rightarrow> int \<Rightarrow> Engine \<Rightarrow> (int \<times> int) \<times> ChunkData \<Rightarrow> Engine" where
  "unloadChunk px pz s entry =
     (case entry of (key, data) \<Rightarrow>
      case key of (cx, cz) \<Rightarrow>
        if \<bar>cx - px\<bar> > RENDER_DISTANCE \<or> \<bar>cz - pz\<bar> > RENDER_DISTANCE then
          s\<lparr>colliders :=
               filter (\<lambda>c. \<not> (fst c = mesh_id data \<and> snd c \<in> set (mesh_children data)))
                 (colliders s),
            chunks := filter (\<lambda>e. fst e \<noteq> key) (chunks s)\<rparr>
        else s)"

text \<open>\<^verbatim>\<open>Vector3.distanceTo\<close>.\<close>

definition distanceTo :: "real \<times> real \<times> real \<Rightarrow> real \<times> real \<times> real \<Rightarrow> real" where
  "distanceTo a b =
     (case a of (ax, ay, az) \<Rightarrow> case b of (bx, by, bz) \<Rightarrow>
        sqrt ((ax - bx) * (ax - bx) + (ay - by) * (ay - by) + (az - bz) * (az - bz)))"

text \<open>The point-of-interest test for one child of a chunk group.\<close>

definition scanChild ::
  "real \<times> real \<times> real \<Rightarrow> Engine \<times> bool \<Rightarrow> Object3D \<Rightarrow> Engine \<times> bool" where
  "scanChild groupPos acc child =
     (let (s, hasPOI) = acc
      in (case child of
            MonolithMesh mx my mz \<Rightarrow>
              (let (gx, gy, gz) = groupPos;
                   worldPos = (gx + mx, gy + my, gz + mz)
               in if distanceTo worldPos (position s) < 25
                  then (s\<lparr>poiNearby := Some worldPos\<rparr>, True)
                  else (s, hasPOI))
          | _ \<Rightarrow> (s, hasPOI)))"

text \<open>The body of the inner loading loop for the offset \<open>(x, z)\<close>.\<close>

definition loadChunk :: "Env \<Rightarrow> int \<Rightarrow> int \<Rightarrow> int \<Rightarrow> int \<Rightarrow> Engine \<times> bool \<Rightarrow> Engine \<times> bool" where
  "loadChunk E px pz x z acc =
     (case acc of (s, hasPOI) \<Rightarrow>
      let cx = px + x;
          cz = pz + z;
          key = (cx, cz);
          s1 = (if map_of (chunks s) key = None then
                  let (c, g) = generateChunk E cx cz (random s);
                      data = \<lparr>mesh_id = nextId s, mesh_position = groupPosition c,
                              mesh_children = children c, obstacles = chunkObstacles c\<rparr>
                  in s\<lparr>chunks := chunks s @ [(key, data)],
                       colliders := colliders s @ map (Pair (nextId s)) (chunkColliders c),
                       nextId := Suc (nextId s),
                       random := g\<rparr>
                else s)
      in (case map_of (chunks s1) key of
            None \<Rightarrow> (s1, hasPOI)
          | Some data \<Rightarrow> foldl (scanChild (mesh_position data)) (s1, hasPOI) (mesh_children data)))"

text \<open>\<^verbatim>\<open>updateChunks\<close>; the boolean is the argument of \<^verbatim>\<open>poiCallback\<close>.\<close>

definition updateChunks :: "Env \<Rightarrow> Engine \<Rightarrow> Engine \<times> bool" where
  "updateChunks E s =
     (case position s of (x, y, z) \<Rightarrow>
      let px = \<lfloor>x / CHUNK_SIZE\<rfloor>;
          pz = \<lfloor>z / CHUNK_SIZE\<rfloor>;
          s1 = foldl (unloadChunk px pz) s (chunks s);
          s2 = s1\<lparr>poiNearby := None\<rparr>;
          range = [- RENDER_DISTANCE..RENDER_DISTANCE]
      in foldl (\<lambda>acc x. foldl (\<lambda>acc z. loadChunk E px pz x z acc) acc range) (s2, False) range)"

section \<open>Physics\<close>

text \<open>\<^verbatim>\<open>Vector3.normalize\<close> on a vector whose \<open>y\<close> is 0: division by \<^verbatim>\<open>length() || 1\<close>.\<close>

definition normalize_vec :: "real \<times> real \<Rightarrow> real \<times> real" where
  "normalize_vec v =
     (case v of (x, z) \<Rightarrow>
        let l = sqrt (x * x + z * z); d = (if l = 0 then 1 else l) in (x / d, z / d))"

definition lengthSq :: "real \<times> real \<Rightarrow> real" where
  "lengthSq v = (case v of (x, z) \<Rightarrow> x * x + z * z)"

text \<open>\<^verbatim>\<open>checkCollision\<close>, acting on the horizontal part of \<^verbatim>\<open>nextPosition\<close>.\<close>

definition checkCollision :: "Obstacle \<Rightarrow> real \<times> real \<Rightarrow> real \<times> real" where
  "checkCollision obs nextPosition =
     (case nextPosition of (nx, nz) \<Rightarrow>
      let playerRadius = 0.7;
          dx = nx - obs_x obs;
          dz = nz - obs_z obs;
          distSq = dx * dx + dz * dz;
          minDist = playerRadius + obs_r obs
      in if distSq < minDist * minDist then
           let dist = sqrt distSq;
               push = minDist - dist
           in if dist > 0.001 then (nx + (dx / dist) * push, nz + (dz / dist) * push)
              else (nx, nz)
         else (nx, nz))"

text \<open>The obstacle loops over the 3 by 3 chunks around \<open>(px, pz)\<close>.\<close>

definition resolveObstacles ::
  "((int \<times> int) \<times> ChunkData) list \<Rightarrow> int \<Rightarrow> int \<Rightarrow> real \<times> real \<Rightarrow> real \<times> real" where
  "resolveObstacles cs px pz nextPosition =
     foldl (\<lambda>np x.
        foldl (\<lambda>np z.
           case map_of cs (px + x, pz + z) of
             None \<Rightarrow> np
           | Some chunk \<Rightarrow> foldl (\<lambda>np obs. checkCollision obs np) np (obstacles chunk))
          np [-1..1])
       nextPosition [-1..1]"

text \<open>
  \<^verbatim>\<open>updatePhysics\<close>. Head bob and camera tilt are left out. The forward and right
  vectors are \<open>(0, 0, -1)\<close> and \<open>(1, 0, 0)\<close> turned about the y axis by the yaw.
\<close>

definition updatePhysics :: "Env \<Rightarrow> real \<Rightarrow> Engine \<Rightarrow> Engine" where
  "updatePhysics E delta s =
     (let keys = keysPressed s;
          isSprinting = (SPRINT keys \<and> stamina s > 0);
          moveSpeed = (if isSprinting then 18 else 10);
          stamina1 =
            (if isSprinting then max 0 (stamina s - FLIGHT_COST * delta * 0.4)
             else if stamina s < STAMINA_MAX then min STAMINA_MAX (stamina s + REGEN_RATE * delta)
             else stamina s);
          forward = normalize_vec (- sin (rotation_y s), - cos (rotation_y s));
          right = normalize_vec (cos (rotation_y s), - sin (rotation_y s));
          moveDir = (0, 0);
          moveDir = (if FORWARD keys then (fst moveDir + fst forward, snd moveDir + snd forward)
                     else moveDir);
          moveDir = (if BACKWARD keys then (fst moveDir - fst forward, snd moveDir - snd forward)
                     else moveDir);
          moveDir = (if RIGHT keys then (fst moveDir + fst right, snd moveDir + snd right)
                     else moveDir);
          moveDir = (if LEFT keys then (fst moveDir - fst right, snd moveDir - snd right)
                     else moveDir);
          moveDir = (if lengthSq moveDir > 0 then normalize_vec moveDir else moveDir);
          (vx, vy, vz) = playerVelocity s;
          vx = vx - vx * 10.0 * delta;
          vz = vz - vz * 10.0 * delta;
          vy = vy - 50.0 * delta;
          (vx, vz) =
            (if lengthSq moveDir > 0
             then (vx + fst moveDir * moveSpeed * 20.0 * delta,
                   vz + snd moveDir * moveSpeed * 20.0 * delta)
             else (vx, vz));
          (vy, stamina2) =
            (if JUMP keys then
               (if playerOnGround s then (18, stamina1)
                else if stamina1 > 5 then (vy + 70 * delta, stamina1 - FLIGHT_COST * delta)
                else (vy, stamina1))
             else (vy, stamina1));
          (x, y, z) = position s;
          ny = y + vy * delta;
          px = \<lfloor>x / CHUNK_SIZE\<rfloor>;
          pz = \<lfloor>z / CHUNK_SIZE\<rfloor>;
          (nx, nz) = resolveObstacles (chunks s) px pz (x + vx * delta, z + vz * delta);
          groundHeight =
            (case intersectObjects E (colliders s) nx nz of None \<Rightarrow> - 200 | Some h \<Rightarrow> h);
          (ny, vy, onGround) =
            (if ny < groundHeight + 1.6 then (groundHeight + 1.6, max 0 vy, True)
             else (ny, vy, False));
          ny = (if ny < - 50 then 100 else ny)
      in s\<lparr>position := (nx, ny, nz), playerVelocity := (vx, vy, vz),
           playerOnGround := onGround, stamina := stamina2\<rparr>)"

text \<open>
  The condition under which the lift branch of the jump test runs
  (\<^verbatim>\<open>playerVelocity.y += 70 * delta; stamina -= FLIGHT_COST * delta\<close>): jump held, the
  grounded flag of the previous step false, and the stamina left by the sprint or
  regeneration update above 5.
\<close>

definition sustainedLift :: "real \<Rightarrow> Engine \<Rightarrow> bool" where
  "sustainedLift delta s =
     (let keys = keysPressed s;
          isSprinting = (SPRINT keys \<and> stamina s > 0);
          stamina1 =
            (if isSprinting then max 0 (stamina s - FLIGHT_COST * delta * 0.4)
             else if stamina s < STAMINA_MAX then min STAMINA_MAX (stamina s + REGEN_RATE * delta)
             else stamina s)
      in JUMP keys \<and> \<not> playerOnGround s \<and> stamina1 > 5)"

text \<open>\<^verbatim>\<open>updateDayNight\<close>: the clock; sun, sky and fog are not modelled.\<close>

definition updateDayNight :: "real \<Rightarrow> Engine \<Rightarrow> Engine" where
  "updateDayNight delta s =
     (let t = timeOfDay s + delta * 0.005;
          t = (if t > 1 then 0 else t)
      in s\<lparr>timeOfDay := t\<rparr>)"

text \<open>
  \<^verbatim>\<open>animate\<close> for one frame at which \<^verbatim>\<open>performance.now()\<close> returns \<open>now\<close>. The
  result is the snapshot given to \<^verbatim>\<open>statsCallback\<close>, the flag given to
  \<^verbatim>\<open>poiCallback\<close>, and the engine after the frame.
\<close>

definition animate :: "Env \<Rightarrow> real \<Rightarrow> Engine \<Rightarrow> PlayerStats \<times> bool \<times> Engine" where
  "animate E now s =
     (let delta = min ((now - lastTime s) / 1000) 0.1;
          s = s\<lparr>lastTime := now\<rparr>;
          s = updatePhysics E delta s;
          (s, hasPOI) = updateChunks E s;
          s = updateDayNight delta s;
          (x, y, z) = position s;
          (biome, g) = getBiome E x z y (random s);
          s = s\<lparr>random := g\<rparr>
      in (\<lparr>stats_position = position s, stats_stamina = stamina s,
           isFlying = (\<not> playerOnGround s \<and> stamina s < STAMINA_MAX),
           stats_biome = biome, stats_timeOfDay = timeOfDay s\<rparr>, hasPOI, s))"

text \<open>
  What reaches the engine between two frames and at a frame: the key and mouse events
  have left \<^verbatim>\<open>keysPressed\<close> and the yaw at some values, and the clock reads \<open>now\<close>.
\<close>

record Frame =
  now :: real
  keys :: Keys
  yaw :: real

definition frame :: "Env \<Rightarrow> Engine \<Rightarrow> Frame \<Rightarrow> PlayerStats \<times> bool \<times> Engine" where
  "frame E s f = animate E (now f) (s\<lparr>keysPressed := keys f, rotation_y := yaw f\<rparr>)"

text \<open>The snapshots emitted over a sequence of frames, and the engine after them.\<close>

fun snapshots :: "Env \<Rightarrow> Engine \<Rightarrow> Frame list \<Rightarrow> PlayerStats list" where
  "snapshots E s [] = []"
| "snapshots E s (f # fs) =
     (case frame E s f of (stats, hasPOI, s') \<Rightarrow> stats # snapshots E s' fs)"

fun run :: "Env \<Rightarrow> Engine \<Rightarrow> Frame list \<Rightarrow> Engine" where
  "run E s [] = s"
| "run E s (f # fs) = (case frame E s f of (stats, hasPOI, s') \<Rightarrow> run E s' fs)"

text \<open>
  \<^verbatim>\<open>performance.now()\<close> is monotonic: no frame reads a clock value below the one
  stored by the frame before it.
\<close>

fun clockMonotonic :: "real \<Rightarrow> Frame list \<Rightarrow> bool" where
  "clockMonotonic t [] = True"
| "clockMonotonic t (f # fs) = (t \<le> now f \<and> clockMonotonic (now f) fs)"

section \<open>Lore service (geminiService.ts)\<close>

text \<open>A value that \<^verbatim>\<open>JSON.parse\<close> can return, and a thrown error with its message.\<close>

datatype Json =
    JNull
  | JBool bool
  | JNumber real
  | JString string
  | JArray "Json list"
  | JObject "(string \<times> Json) list"








section \<open>Concrete inputs\<close>

text \<open>
  Environments whose noise functions are constant, with a two-vertex plane and a ray
  that hits nothing; random streams that repeat one draw; key states and frame lists.
  They are the inputs at which the theorems below are instantiated.
\<close>

definition flatEnv :: "real \<Rightarrow> real \<Rightarrow> Env" where
  "flatEnv c n =
     \<lparr>noise2D = (\<lambda>x z. n), continentNoise = (\<lambda>x z. c), detailNoise = (\<lambda>x z. 0),
      planeVertices = [(- 50, - 50), (50, 50)],
      intersectObjects = (\<lambda>cs x z. None)\<rparr>"

definition clampedEnv :: Env where "clampedEnv = flatEnv 0 (- 1)"

definition shoreEnv :: Env where "shoreEnv = flatEnv 0.15 (- 1)"

definition snowEnv :: Env where "snowEnv = flatEnv 0.45 0"

definition constantDraws :: "real \<Rightarrow> Rng" where
  "constantDraws u = ((\<lambda>k. u), 0)"

definition highDraws :: Rng where "highDraws = constantDraws 0.6"

definition lowDraws :: Rng where "lowDraws = constantDraws 0.1"

definition noKeys :: Keys where
  "noKeys = \<lparr>FORWARD = False, BACKWARD = False, LEFT = False, RIGHT = False,
             JUMP = False, SPRINT = False\<rparr>"



text \<open>Two frames, 16 ms and 33 ms after the start, with sprint and jump held.\<close>

definition sprintJumpFrames :: "Frame list" where
  "sprintJumpFrames =
     [\<lparr>now = 16, keys = noKeys\<lparr>JUMP := True, SPRINT := True\<rparr>, yaw = 0\<rparr>,
      \<lparr>now = 33, keys = noKeys\<lparr>JUMP := True, SPRINT := True\<rparr>, yaw = 0\<rparr>]"



text \<open>One frame 100 ms after the start, with only sprint held, or only jump held.\<close>

definition sprintFrame :: Frame where
  "sprintFrame = \<lparr>now = 100, keys = noKeys\<lparr>SPRINT := True\<rparr>, yaw = 0\<rparr>"

definition jumpFrame :: Frame where
  "jumpFrame = \<lparr>now = 100, keys = noKeys\<lparr>JUMP := True\<rparr>, yaw = 0\<rparr>"







section \<open>Auxiliary notions\<close>

text \<open>The keys of the chunk table, and the eviction test on a key.\<close>

definition loadedKeys :: "Engine \<Rightarrow> (int \<times> int) set" where
  "loadedKeys s = fst ` set (chunks s)"

definition far :: "int \<Rightarrow> int \<Rightarrow> int \<times> int \<Rightarrow> bool" where
  "far px pz key =
     (case key of (cx, cz) \<Rightarrow> \<bar>cx - px\<bar> > RENDER_DISTANCE \<or> \<bar>cz - pz\<bar> > RENDER_DISTANCE)"

text \<open>The part of the engine that chunk streaming never writes.\<close>

definition vitals ::
  "Engine \<Rightarrow> (real \<times> real \<times> real) \<times> (real \<times> real \<times> real) \<times> bool \<times> real \<times> real \<times> real" where
  "vitals s =
     (position s, playerVelocity s, playerOnGround s, stamina s, timeOfDay s, lastTime s)"

text \<open>The stamina left by the sprint or regeneration update of a physics step.\<close>

definition staminaAfterSprint :: "real \<Rightarrow> Engine \<Rightarrow> real" where
  "staminaAfterSprint delta s =
     (if SPRINT (keysPressed s) \<and> stamina s > 0
      then max 0 (stamina s - FLIGHT_COST * delta * 0.4)
      else if stamina s < STAMINA_MAX then min STAMINA_MAX (stamina s + REGEN_RATE * delta)
      else stamina s)"

text \<open>The \<open>delta\<close> of a frame, the engine after its physics step, and the clock update.\<close>

definition frameDelta :: "real \<Rightarrow> Engine \<Rightarrow> real" where
  "frameDelta t s = min ((t - lastTime s) / 1000) 0.1"

definition afterPhysics :: "Env \<Rightarrow> real \<Rightarrow> Engine \<Rightarrow> Engine" where
  "afterPhysics E t s = updatePhysics E (frameDelta t s) (s\<lparr>lastTime := t\<rparr>)"

definition dayClock :: "real \<Rightarrow> real \<Rightarrow> real" where
  "dayClock delta t = (if t + delta * 0.005 > 1 then 0 else t + delta * 0.005)"

text \<open>Whether the lift branch runs in the physics step of frame \<open>f\<close> from engine \<open>s\<close>.\<close>

definition liftInFrame :: "Engine \<Rightarrow> Frame \<Rightarrow> bool" where
  "liftInFrame s f =
     sustainedLift (min ((now f - lastTime s) / 1000) 0.1)
       (s\<lparr>keysPressed := keys f, rotation_y := yaw f, lastTime := now f\<rparr>)"

text \<open>
  Horizontal distance from a point to the centre of an obstacle; the sum
  \<open>playerRadius + obs.r\<close>; two obstacles whose circles of that radius do not overlap.
\<close>

definition centerDistance :: "Obstacle \<Rightarrow> real \<times> real \<Rightarrow> real" where
  "centerDistance obs p =
     sqrt ((fst p - obs_x obs) * (fst p - obs_x obs) + (snd p - obs_z obs) * (snd p - obs_z obs))"

definition minDist :: "Obstacle \<Rightarrow> real" where
  "minDist obs = 0.7 + obs_r obs"




text \<open>
  Readings of a generated chunk: the height array of its terrain mesh, the children
  flagged as points of interest, and the children that are terrain or stone.
\<close>

definition terrainHeights :: "Chunk \<Rightarrow> real list" where
  "terrainHeights c =
     concat (map (\<lambda>obj. case obj of TerrainMesh hs \<Rightarrow> hs | _ \<Rightarrow> []) (children c))"

definition isPOI :: "Object3D \<Rightarrow> bool" where
  "isPOI obj = (case obj of MonolithMesh mx my mz \<Rightarrow> True | _ \<Rightarrow> False)"

definition isGround :: "Object3D \<Rightarrow> bool" where
  "isGround obj = (case obj of TerrainMesh hs \<Rightarrow> True | StoneMesh rocks \<Rightarrow> True | _ \<Rightarrow> False)"

text \<open>
  The two tests that guard the monolith of a chunk, and the geometry lists that the
  scatter loops of \<^verbatim>\<open>generateChunk\<close> leave for a chunk.
\<close>

definition monolithPlaced :: "Env \<Rightarrow> int \<Rightarrow> int \<Rightarrow> bool" where
  "monolithPlaced E chunkX chunkZ =
     (seededRandom (of_int chunkX * 49297 + of_int chunkZ * 92713) > 0.97 \<and>
      getHeight E (of_int chunkX * CHUNK_SIZE) (of_int chunkZ * CHUNK_SIZE) > WATER_LEVEL + 2)"

definition scattered :: "Env \<Rightarrow> int \<Rightarrow> int \<Rightarrow> Rng \<Rightarrow> Geos" where
  "scattered E chunkX chunkZ g =
     fst (scatterLoops E (of_int chunkX * CHUNK_SIZE) (of_int chunkZ * CHUNK_SIZE)
       (\<lparr>trunks = [], oakLeaves = [], pineLeaves = [], sakuraLeaves = [], cacti = [],
         stones = []\<rparr>,
        if monolithPlaced E chunkX chunkZ
        then [\<lparr>obs_x = of_int chunkX * CHUNK_SIZE, obs_z = of_int chunkZ * CHUNK_SIZE,
               obs_r = 4\<rparr>]
        else [],
        snd (snd (snd (terrainLoop E (of_int chunkX * CHUNK_SIZE)
                          (of_int chunkZ * CHUNK_SIZE) g)))))"

text \<open>Every collider of the engine is a terrain mesh or a stone mesh.\<close>

definition groundOnly :: "Engine \<Rightarrow> bool" where
  "groundOnly s = list_all (\<lambda>c. isGround (snd c)) (colliders s)"


section \<open>Height field: the coastline blend\<close>

lemma preBlendHeight_clampedEnv: "preBlendHeight clampedEnv x z = 2"
  by (simp add: preBlendHeight_def clampedEnv_def flatEnv_def WATER_LEVEL_def Let_def)

lemma getHeight_clampedEnv: "getHeight clampedEnv x z = 2"
  by (simp add: getHeight_def preBlendHeight_clampedEnv WATER_LEVEL_def lerp_def)

lemma preBlendHeight_shoreEnv: "preBlendHeight shoreEnv x z = 3"
  by (simp add: preBlendHeight_def shoreEnv_def flatEnv_def WATER_LEVEL_def Let_def)

text \<open>
  C6, as stated, fails. Where the land branch clamps the height to
  \<open>WATER_LEVEL + 0.5\<close>, the pre-blend height is 2, inside
  \<open>[WATER_LEVEL - 1, WATER_LEVEL + 2]\<close>, and the blend returns 2 again: the final
  height is not strictly between the pre-blend height and \<open>WATER_LEVEL + 0.5\<close>.
\<close>

theorem coastline_blend_fixes_clamped_height:
  "WATER_LEVEL - 1 \<le> preBlendHeight clampedEnv 0 0 \<and>
   preBlendHeight clampedEnv 0 0 \<le> WATER_LEVEL + 2 \<and>
   \<not> (preBlendHeight clampedEnv 0 0 < getHeight clampedEnv 0 0 \<and>
        getHeight clampedEnv 0 0 < WATER_LEVEL + 0.5) \<and>
   \<not> (WATER_LEVEL + 0.5 < getHeight clampedEnv 0 0 \<and>
        getHeight clampedEnv 0 0 < preBlendHeight clampedEnv 0 0)"
  by (simp add: preBlendHeight_clampedEnv getHeight_clampedEnv WATER_LEVEL_def)

text \<open>
  C6, amended: for every \<open>(x, z)\<close> whose pre-blend height \<open>h\<close> lies in
  \<open>[WATER_LEVEL - 1, WATER_LEVEL + 2]\<close>, the height returned by \<^verbatim>\<open>getHeight\<close>
  lies between \<open>h\<close> and \<open>WATER_LEVEL + 0.5\<close>, ends included. For \<open>h\<close> strictly
  inside the band it is the blend \<^verbatim>\<open>lerp(h, WATER_LEVEL + 0.5, 0.4)\<close>, and it lies
  strictly between \<open>h\<close> and \<open>WATER_LEVEL + 0.5\<close> whenever \<open>h\<close> differs from
  \<open>WATER_LEVEL + 0.5\<close> by at least \<open>10\<^sup>-\<^sup>9\<close>. (At the two ends of the band the test
  \<^verbatim>\<open>h > WATER_LEVEL - 1 && h < WATER_LEVEL + 2\<close> leaves \<open>h\<close> as it is; at
  \<open>h = WATER_LEVEL + 0.5\<close>, and in the program's doubles within rounding of it, the
  blend is \<open>WATER_LEVEL + 0.5\<close> itself.)
\<close>

theorem coastline_blend_between:
  assumes "WATER_LEVEL - 1 \<le> preBlendHeight E x z"
    and "preBlendHeight E x z \<le> WATER_LEVEL + 2"
  shows "(preBlendHeight E x z \<le> getHeight E x z \<and> getHeight E x z \<le> WATER_LEVEL + 0.5 \<or>
          WATER_LEVEL + 0.5 \<le> getHeight E x z \<and> getHeight E x z \<le> preBlendHeight E x z) \<and>
         (WATER_LEVEL - 1 < preBlendHeight E x z \<and> preBlendHeight E x z < WATER_LEVEL + 2 \<longrightarrow>
            getHeight E x z = lerp (preBlendHeight E x z) (WATER_LEVEL + 0.5) 0.4) \<and>
         (WATER_LEVEL - 1 < preBlendHeight E x z \<and> preBlendHeight E x z < WATER_LEVEL + 2 \<and>
          1 / 10 ^ 9 \<le> \<bar>preBlendHeight E x z - (WATER_LEVEL + 0.5)\<bar> \<longrightarrow>
            preBlendHeight E x z < getHeight E x z \<and> getHeight E x z < WATER_LEVEL + 0.5 \<or>
            WATER_LEVEL + 0.5 < getHeight E x z \<and> getHeight E x z < preBlendHeight E x z)"
proof -
  define h where "h = preBlendHeight E x z"
  define t where "t = WATER_LEVEL + 0.5"
  have blend: "getHeight E x z = lerp h t 0.4" if "WATER_LEVEL - 1 < h" "h < WATER_LEVEL + 2"
    using that by (simp add: getHeight_def h_def t_def Let_def)
  have keep: "getHeight E x z = h" if "\<not> (WATER_LEVEL - 1 < h \<and> h < WATER_LEVEL + 2)"
    using that by (auto simp: getHeight_def h_def Let_def)
  have l: "lerp h t 0.4 = h + 0.4 * (t - h)" by (simp add: lerp_def field_simps)
  have incl: "h \<le> getHeight E x z \<and> getHeight E x z \<le> t \<or>
      t \<le> getHeight E x z \<and> getHeight E x z \<le> h"
  proof (cases "WATER_LEVEL - 1 < h \<and> h < WATER_LEVEL + 2")
    case True
    then have g: "getHeight E x z = h + 0.4 * (t - h)" using blend l by simp
    show ?thesis
    proof (cases "h \<le> t")
      case True
      then show ?thesis unfolding g by (simp add: field_simps)
    next
      case False
      then show ?thesis unfolding g by (simp add: field_simps)
    qed
  next
    case False
    then have g: "getHeight E x z = h" by (rule keep)
    from False assms have "h = WATER_LEVEL - 1 \<or> h = WATER_LEVEL + 2"
      unfolding h_def by linarith
    then show ?thesis unfolding g t_def by auto
  qed
  have strict: "h < getHeight E x z \<and> getHeight E x z < t \<or>
      t < getHeight E x z \<and> getHeight E x z < h"
    if "WATER_LEVEL - 1 < h" "h < WATER_LEVEL + 2" "1 / 10 ^ 9 \<le> \<bar>h - t\<bar>"
  proof -
    have g: "getHeight E x z = h + 0.4 * (t - h)" using blend[OF that(1,2)] l by simp
    have "(0 :: real) < 1 / 10 ^ 9" by simp
    with that(3) have "h < t \<or> t < h" by linarith
    then show ?thesis unfolding g by (elim disjE) (simp_all add: field_simps)
  qed
  show ?thesis
    using incl blend strict unfolding h_def[symmetric] t_def[symmetric] by blast
qed

theorem coastline_blend_between_witness:
  "WATER_LEVEL - 1 \<le> preBlendHeight shoreEnv 0 0 \<and>
   preBlendHeight shoreEnv 0 0 \<le> WATER_LEVEL + 2 \<and>
   WATER_LEVEL - 1 < preBlendHeight shoreEnv 0 0 \<and>
   preBlendHeight shoreEnv 0 0 < WATER_LEVEL + 2 \<and>
   1 / 10 ^ 9 \<le> \<bar>preBlendHeight shoreEnv 0 0 - (WATER_LEVEL + 0.5)\<bar> \<and>
   getHeight shoreEnv 0 0 = lerp (preBlendHeight shoreEnv 0 0) (WATER_LEVEL + 0.5) 0.4 \<and>
   WATER_LEVEL + 0.5 < getHeight shoreEnv 0 0 \<and>
   getHeight shoreEnv 0 0 < preBlendHeight shoreEnv 0 0"
proof -
  have h: "WATER_LEVEL - 1 \<le> preBlendHeight shoreEnv 0 0"
    "preBlendHeight shoreEnv 0 0 \<le> WATER_LEVEL + 2"
    by (simp_all add: preBlendHeight_shoreEnv WATER_LEVEL_def)
  have m: "WATER_LEVEL - 1 < preBlendHeight shoreEnv 0 0"
    "preBlendHeight shoreEnv 0 0 < WATER_LEVEL + 2"
    "1 / 10 ^ 9 \<le> \<bar>preBlendHeight shoreEnv 0 0 - (WATER_LEVEL + 0.5)\<bar>"
    "\<not> preBlendHeight shoreEnv 0 0 < WATER_LEVEL + 0.5"
    by (simp_all add: preBlendHeight_shoreEnv WATER_LEVEL_def)
  from coastline_blend_between[OF h] m
  have "getHeight shoreEnv 0 0 = lerp (preBlendHeight shoreEnv 0 0) (WATER_LEVEL + 0.5) 0.4"
    and "WATER_LEVEL + 0.5 < getHeight shoreEnv 0 0 \<and>
         getHeight shoreEnv 0 0 < preBlendHeight shoreEnv 0 0"
    by linarith+
  with h m show ?thesis by simp
qed

section \<open>Scatter pass: pebbles and boulders\<close>

lemma seededRandom_0: "seededRandom 0 = 0"
  by (simp add: seededRandom_def)

lemma getHeight_snowEnv: "getHeight snowEnv x z = 36"
  by (simp add: getHeight_def preBlendHeight_def snowEnv_def flatEnv_def WATER_LEVEL_def
      Let_def lerp_def)

lemma scatterRule_boulder:
  "(\<exists>s. fst (scatterRule biome rVal g) = Boulder s) \<longleftrightarrow> (biome = SNOW \<and> rVal < 0.03)"
  by (cases biome) (auto simp: scatterRule_def Let_def split_def)

text \<open>
  C5, as stated, fails. The pebble rule excludes the Snow biome, the boulder rule does
  not: in chunk \<open>(0, 0)\<close>, the sample of grid cell \<open>(2, -22)\<close> has \<open>wx = 0\<close> and
  \<open>rVal = 0\<close>; at height 36, with a draw above 0.5, its biome is Snow and the boulder
  rule fires, with scale \<open>0.8 + 0.6 \<times> 1.2\<close>.
\<close>

theorem boulder_scattered_in_snow:
  "fst (scatterAt snowEnv 0 0 2 (- 22) highDraws) = Some (Boulder 1.52)"
  by (simp add: scatterAt_def Let_def seededRandom_0 getHeight_snowEnv WATER_LEVEL_def
      getBiome_def Math_random_def highDraws_def constantDraws_def scatterRule_def split_def)

text \<open>
  C5, amended: for every chunk and every scatter sample, the boulder rule fires exactly
  when the sample survives the water cutoff, its biome is Snow and \<open>rVal < 0.03\<close>. In
  every other biome the pebble rule \<open>rVal < 0.15\<close>, tested first, shadows it and no
  boulder is produced. A boulder of scale \<open>s\<close> registers one obstacle, of radius
  \<open>0.8 \<times> s\<close>, at the sample point.
\<close>

theorem boulder_only_in_snow:
  "(\<exists>s. fst (scatterAt E chunkWorldX chunkWorldZ x z g) = Some (Boulder s)) \<longleftrightarrow>
   (let lx = x + (seededRandom (x * 11 + z) - 0.5) * 4;
        lz = z + (seededRandom (z * 13 + x) - 0.5) * 4;
        wx = lx + chunkWorldX;
        wz = lz + chunkWorldZ;
        y = getHeight E wx wz
    in y > WATER_LEVEL + 0.5 \<and> fst (getBiome E wx wz y g) = SNOW \<and>
       seededRandom (wx * wz) < 0.03) \<and>
   fst (snd (place (Boulder s) lx y lz wx wz (geos, obs, g'))) =
     obs @ [\<lparr>obs_x = wx, obs_z = wz, obs_r = s * 0.8\<rparr>]"
proof -
  have "fst (snd (place (Boulder s) lx y lz wx wz (geos, obs, g'))) =
      obs @ [\<lparr>obs_x = wx, obs_z = wz, obs_r = s * 0.8\<rparr>]"
    by (simp add: createRock_def Let_def split_def)
  then show ?thesis
    using scatterRule_boulder
    by (auto simp: scatterAt_def Let_def split_def)
qed


section \<open>Chunk streaming: the loaded window\<close>

lemma loadedKeys_unloadChunk:
  "loadedKeys (unloadChunk px pz s e) = (if far px pz (fst e) then loadedKeys s - {fst e} else loadedKeys s)"
  by (cases e) (auto simp: unloadChunk_def loadedKeys_def far_def split: prod.splits)

lemma loadedKeys_unload_fold:
  "loadedKeys (foldl (unloadChunk px pz) s es) = loadedKeys s - {k \<in> fst ` set es. far px pz k}"
proof (induction es arbitrary: s)
  case Nil
  then show ?case by simp
next
  case (Cons e es)
  show ?case
    by (simp add: Cons.IH loadedKeys_unloadChunk) auto
qed

lemma chunks_scanChild: "chunks (fst (scanChild gp acc c)) = chunks (fst acc)"
  by (cases acc; cases c) (simp_all add: scanChild_def Let_def split_def)

lemma chunks_scan_fold: "chunks (fst (foldl (scanChild gp) acc cs)) = chunks (fst acc)"
  by (induction cs arbitrary: acc) (simp_all add: chunks_scanChild)

lemma chunks_scan_phase:
  "chunks (fst (case m of None \<Rightarrow> (s1, b)
       | Some data \<Rightarrow> foldl (scanChild (mesh_position data)) (s1, b) (mesh_children data))) =
   chunks s1"
  by (cases m) (simp_all add: chunks_scan_fold)

lemma loadedKeys_loadChunk:
  "loadedKeys (fst (loadChunk E px pz x z acc)) = insert (px + x, pz + z) (loadedKeys (fst acc))"
proof -
  obtain s b where acc: "acc = (s, b)" by (cases acc)
  have "loadedKeys (fst (loadChunk E px pz x z acc)) =
      fst ` set (if map_of (chunks s) (px + x, pz + z) = None
                 then chunks s @ [((px + x, pz + z),
                    \<lparr>mesh_id = nextId s,
                     mesh_position = groupPosition (fst (generateChunk E (px + x) (pz + z) (random s))),
                     mesh_children = children (fst (generateChunk E (px + x) (pz + z) (random s))),
                     obstacles = chunkObstacles (fst (generateChunk E (px + x) (pz + z) (random s)))\<rparr>)]
                 else chunks s)"
    unfolding loadedKeys_def loadChunk_def acc
    by (simp only: Let_def split_def prod.case chunks_scan_phase fst_conv snd_conv) simp
  also have "\<dots> = insert (px + x, pz + z) (fst ` set (chunks s))"
  proof (cases "map_of (chunks s) (px + x, pz + z)")
    case None
    then show ?thesis by simp
  next
    case (Some d)
    then have "(px + x, pz + z) \<in> fst ` set (chunks s)"
      by (metis map_of_eq_None_iff option.distinct(1))
    with Some show ?thesis by auto
  qed
  finally show ?thesis by (simp add: acc loadedKeys_def)
qed

lemma loadedKeys_load_inner:
  "loadedKeys (fst (foldl (\<lambda>acc z. loadChunk E px pz x z acc) acc zs)) =
   loadedKeys (fst acc) \<union> (\<lambda>z. (px + x, pz + z)) ` set zs"
  by (induction zs arbitrary: acc) (auto simp: loadedKeys_loadChunk)

lemma loadedKeys_load_outer:
  "loadedKeys (fst (foldl (\<lambda>acc x. foldl (\<lambda>acc z. loadChunk E px pz x z acc) acc zs) acc xs)) =
   loadedKeys (fst acc) \<union> {(px + x, pz + z) | x z. x \<in> set xs \<and> z \<in> set zs}"
  by (induction xs arbitrary: acc) (auto simp: loadedKeys_load_inner)

lemma window_offsets:
  "{(px + x, pz + z) | x z. - RENDER_DISTANCE \<le> x \<and> x \<le> RENDER_DISTANCE \<and>
       - RENDER_DISTANCE \<le> z \<and> z \<le> RENDER_DISTANCE} = {k. \<not> far px pz k}"
proof (intro set_eqI iffI)
  fix k
  assume "k \<in> {(px + x, pz + z) | x z. - RENDER_DISTANCE \<le> x \<and> x \<le> RENDER_DISTANCE \<and>
       - RENDER_DISTANCE \<le> z \<and> z \<le> RENDER_DISTANCE}"
  then show "k \<in> {k. \<not> far px pz k}"
    by (auto simp: far_def)
next
  fix k
  assume k: "k \<in> {k. \<not> far px pz k}"
  obtain a b where ab: "k = (a, b)" by (cases k)
  from k have "\<bar>a - px\<bar> \<le> RENDER_DISTANCE" "\<bar>b - pz\<bar> \<le> RENDER_DISTANCE"
    by (auto simp: far_def ab)
  then have "a = px + (a - px) \<and> b = pz + (b - pz) \<and>
      - RENDER_DISTANCE \<le> a - px \<and> a - px \<le> RENDER_DISTANCE \<and>
      - RENDER_DISTANCE \<le> b - pz \<and> b - pz \<le> RENDER_DISTANCE"
    by linarith
  then show "k \<in> {(px + x, pz + z) | x z. - RENDER_DISTANCE \<le> x \<and> x \<le> RENDER_DISTANCE \<and>
       - RENDER_DISTANCE \<le> z \<and> z \<le> RENDER_DISTANCE}"
    unfolding ab by blast
qed

text \<open>
  C1: for every observer position, after one \<^verbatim>\<open>updateChunks\<close> the keys of the chunk
  table are exactly the square window of \<open>RENDER_DISTANCE\<close> chunks around
  \<open>(px, pz) = floor(position / CHUNK_SIZE)\<close> on both axes: every chunk outside it has
  been evicted and every coordinate inside it is loaded.
\<close>

theorem updateChunks_loads_exactly_window:
  "fst ` set (chunks (fst (updateChunks E s))) =
   {(cx, cz). \<bar>cx - \<lfloor>fst (position s) / CHUNK_SIZE\<rfloor>\<bar> \<le> RENDER_DISTANCE \<and>
              \<bar>cz - \<lfloor>snd (snd (position s)) / CHUNK_SIZE\<rfloor>\<bar> \<le> RENDER_DISTANCE}"
proof -
  obtain x y z where pos: "position s = (x, y, z)" by (cases "position s") auto
  define px where "px = \<lfloor>x / CHUNK_SIZE\<rfloor>"
  define pz where "pz = \<lfloor>z / CHUNK_SIZE\<rfloor>"
  define s1 where "s1 = foldl (unloadChunk px pz) s (chunks s)"
  have k1: "loadedKeys (s1\<lparr>poiNearby := None\<rparr>) = {k \<in> loadedKeys s. \<not> far px pz k}"
    using loadedKeys_unload_fold[of px pz s "chunks s"]
    by (auto simp: s1_def loadedKeys_def)
  have "loadedKeys (fst (updateChunks E s)) =
      {k \<in> loadedKeys s. \<not> far px pz k} \<union> {k. \<not> far px pz k}"
    by (simp add: updateChunks_def pos Let_def px_def[symmetric] pz_def[symmetric]
        s1_def[symmetric] loadedKeys_load_outer window_offsets k1)
  then have "loadedKeys (fst (updateChunks E s)) = {k. \<not> far px pz k}" by auto
  then show ?thesis
    by (auto simp: loadedKeys_def far_def pos px_def pz_def)
qed


section \<open>Engine frames: what streaming leaves untouched\<close>

lemma vitals_unloadChunk: "vitals (unloadChunk px pz s e) = vitals s"
  by (cases e) (simp add: unloadChunk_def vitals_def split: prod.splits)

lemma vitals_unload_fold: "vitals (foldl (unloadChunk px pz) s es) = vitals s"
  by (induction es arbitrary: s) (simp_all add: vitals_unloadChunk)

lemma vitals_scanChild: "vitals (fst (scanChild gp acc c)) = vitals (fst acc)"
  by (cases acc; cases c) (simp_all add: scanChild_def Let_def split_def vitals_def)

lemma vitals_scan_fold: "vitals (fst (foldl (scanChild gp) acc cs)) = vitals (fst acc)"
  by (induction cs arbitrary: acc) (simp_all add: vitals_scanChild)

lemma vitals_scan_phase:
  "vitals (fst (case m of None \<Rightarrow> (s1, b)
       | Some data \<Rightarrow> foldl (scanChild (mesh_position data)) (s1, b) (mesh_children data))) =
   vitals s1"
  by (cases m) (simp_all add: vitals_scan_fold)

lemma vitals_loadChunk: "vitals (fst (loadChunk E px pz x z acc)) = vitals (fst acc)"
proof -
  obtain s b where acc: "acc = (s, b)" by (cases acc)
  show ?thesis
    unfolding loadChunk_def acc
    by (simp only: Let_def split_def prod.case vitals_scan_phase fst_conv snd_conv)
       (simp add: vitals_def)
qed

lemma vitals_load_inner:
  "vitals (fst (foldl (\<lambda>acc z. loadChunk E px pz x z acc) acc zs)) = vitals (fst acc)"
  by (induction zs arbitrary: acc) (simp_all add: vitals_loadChunk)

lemma vitals_load_outer:
  "vitals (fst (foldl (\<lambda>acc x. foldl (\<lambda>acc z. loadChunk E px pz x z acc) acc zs) acc xs)) =
   vitals (fst acc)"
  by (induction xs arbitrary: acc) (simp_all add: vitals_load_inner)

lemma vitals_updateChunks: "vitals (fst (updateChunks E s)) = vitals s"
proof -
  obtain x y z where pos: "position s = (x, y, z)" by (cases "position s") auto
  have "vitals (foldl (unloadChunk \<lfloor>x / CHUNK_SIZE\<rfloor> \<lfloor>z / CHUNK_SIZE\<rfloor>) s (chunks s)
      \<lparr>poiNearby := None\<rparr>) = vitals s"
    using vitals_unload_fold[of "\<lfloor>x / CHUNK_SIZE\<rfloor>" "\<lfloor>z / CHUNK_SIZE\<rfloor>" s "chunks s"]
    by (simp add: vitals_def)
  then show ?thesis
    by (simp add: updateChunks_def pos Let_def vitals_load_outer)
qed

lemma stamina_updatePhysics:
  "stamina (updatePhysics E delta s) =
     (if sustainedLift delta s then staminaAfterSprint delta s - FLIGHT_COST * delta
      else staminaAfterSprint delta s)"
  by (simp add: updatePhysics_def sustainedLift_def staminaAfterSprint_def Let_def split_def)

lemma lastTime_updatePhysics: "lastTime (updatePhysics E delta s) = lastTime s"
  by (simp add: updatePhysics_def Let_def split_def)

lemma timeOfDay_updatePhysics: "timeOfDay (updatePhysics E delta s) = timeOfDay s"
  by (simp add: updatePhysics_def Let_def split_def)

lemma updateChunks_keeps:
  "position (fst (updateChunks E s)) = position s"
  "playerOnGround (fst (updateChunks E s)) = playerOnGround s"
  "stamina (fst (updateChunks E s)) = stamina s"
  "timeOfDay (fst (updateChunks E s)) = timeOfDay s"
  "lastTime (fst (updateChunks E s)) = lastTime s"
  using vitals_updateChunks[of E s] by (simp_all add: vitals_def)

lemma animate_engine:
  "stamina (snd (snd (animate E t s))) = stamina (afterPhysics E t s)"
  "playerOnGround (snd (snd (animate E t s))) = playerOnGround (afterPhysics E t s)"
  "timeOfDay (snd (snd (animate E t s))) = dayClock (frameDelta t s) (timeOfDay s)"
  "lastTime (snd (snd (animate E t s))) = t"
  by (simp_all add: animate_def Let_def split_def updateDayNight_def updateChunks_keeps
      afterPhysics_def frameDelta_def dayClock_def timeOfDay_updatePhysics lastTime_updatePhysics)

lemma animate_stats:
  "stats_stamina (fst (animate E t s)) = stamina (snd (snd (animate E t s)))"
  "stats_timeOfDay (fst (animate E t s)) = timeOfDay (snd (snd (animate E t s)))"
  "isFlying (fst (animate E t s)) =
     (\<not> playerOnGround (snd (snd (animate E t s))) \<and>
      stamina (snd (snd (animate E t s))) < STAMINA_MAX)"
  by (simp_all add: animate_def Let_def split_def)

lemma frameDelta_bounds: "lastTime s \<le> t \<Longrightarrow> 0 \<le> frameDelta t s \<and> frameDelta t s \<le> 0.1"
  by (simp add: frameDelta_def)

lemma staminaAfterSprint_bounds:
  assumes "0 \<le> delta" "0 \<le> stamina s" "stamina s \<le> STAMINA_MAX"
  shows "0 \<le> staminaAfterSprint delta s \<and> staminaAfterSprint delta s \<le> STAMINA_MAX"
proof -
  have a: "0 \<le> FLIGHT_COST * delta * 0.4" "0 \<le> REGEN_RATE * delta"
    using assms(1) by (simp_all add: FLIGHT_COST_def REGEN_RATE_def)
  show ?thesis
    using assms(2,3) a unfolding staminaAfterSprint_def by auto
qed

lemma stamina_updatePhysics_bounds:
  assumes "0 \<le> delta" "delta \<le> 0.1" "0 \<le> stamina s" "stamina s \<le> STAMINA_MAX"
  shows "0 \<le> stamina (updatePhysics E delta s) \<and> stamina (updatePhysics E delta s) \<le> STAMINA_MAX"
proof -
  note b = staminaAfterSprint_bounds[OF assms(1,3,4)]
  have c: "0 \<le> FLIGHT_COST * delta" "FLIGHT_COST * delta \<le> 2.5"
    using assms(1,2) by (simp_all add: FLIGHT_COST_def)
  show ?thesis
  proof (cases "sustainedLift delta s")
    case True
    then have "staminaAfterSprint delta s > 5"
      by (simp add: sustainedLift_def staminaAfterSprint_def Let_def)
    with b c True show ?thesis by (simp add: stamina_updatePhysics)
  next
    case False
    with b show ?thesis by (simp add: stamina_updatePhysics)
  qed
qed

lemma frame_stamina_bounds:
  assumes "lastTime s \<le> now f" "0 \<le> stamina s" "stamina s \<le> STAMINA_MAX"
  shows "0 \<le> stamina (snd (snd (frame E s f))) \<and> stamina (snd (snd (frame E s f))) \<le> STAMINA_MAX"
proof -
  let ?s = "s\<lparr>keysPressed := keys f, rotation_y := yaw f\<rparr>"
  have d: "0 \<le> frameDelta (now f) ?s \<and> frameDelta (now f) ?s \<le> 0.1"
    using assms(1) by (intro frameDelta_bounds) simp
  show ?thesis
    unfolding frame_def animate_engine afterPhysics_def
    using d assms(2,3) by (intro stamina_updatePhysics_bounds) simp_all
qed

lemma frame_lastTime: "lastTime (snd (snd (frame E s f))) = now f"
  by (simp add: frame_def animate_engine)

lemma frame_stats:
  "stats_stamina (fst (frame E s f)) = stamina (snd (snd (frame E s f)))"
  "stats_timeOfDay (fst (frame E s f)) = timeOfDay (snd (snd (frame E s f)))"
  by (simp_all add: frame_def animate_stats)

lemma stamina_invariant:
  assumes "clockMonotonic (lastTime s) fs" "0 \<le> stamina s" "stamina s \<le> STAMINA_MAX"
  shows "(\<forall>st \<in> set (snapshots E s fs). 0 \<le> stats_stamina st \<and> stats_stamina st \<le> STAMINA_MAX) \<and>
         0 \<le> stamina (run E s fs) \<and> stamina (run E s fs) \<le> STAMINA_MAX"
  using assms
proof (induction fs arbitrary: s)
  case Nil
  then show ?case by simp
next
  case (Cons f fs)
  obtain st b s' where fr: "frame E s f = (st, b, s')" by (cases "frame E s f") auto
  from Cons.prems have lt: "lastTime s \<le> now f" and mono: "clockMonotonic (now f) fs" by simp_all
  have b': "0 \<le> stamina s' \<and> stamina s' \<le> STAMINA_MAX"
    using frame_stamina_bounds[OF lt Cons.prems(2,3), of E] by (simp add: fr)
  have l': "lastTime s' = now f" using frame_lastTime[of E s f] by (simp add: fr)
  have st: "stats_stamina st = stamina s'" using frame_stats(1)[of E s f] by (simp add: fr)
  have "clockMonotonic (lastTime s') fs" using mono l' by simp
  from Cons.IH[OF this] b' st show ?case by (simp add: fr)
qed


section \<open>Stamina bounds\<close>

text \<open>
  C2: over every sequence of frames with arbitrary key states and arbitrary elapsed
  times (the clock never runs backwards), starting from the engine as constructed with
  stamina \<open>STAMINA_MAX\<close>, the stamina in every emitted snapshot and in the engine lies
  in \<open>[0, STAMINA_MAX]\<close>. The lift drain is not clamped, but it runs only above 5 and
  takes at most \<open>FLIGHT_COST \<times> 0.1 = 2.5\<close> in a frame.
\<close>

theorem stamina_stays_in_range:
  assumes "clockMonotonic t0 fs"
  shows "(\<forall>st \<in> set (snapshots E (newEngine t0 g) fs).
            0 \<le> stats_stamina st \<and> stats_stamina st \<le> STAMINA_MAX) \<and>
         0 \<le> stamina (run E (newEngine t0 g) fs) \<and>
         stamina (run E (newEngine t0 g) fs) \<le> STAMINA_MAX"
  using assms by (intro stamina_invariant) (simp_all add: newEngine_def STAMINA_MAX_def)

theorem stamina_stays_in_range_witness:
  "clockMonotonic 0 sprintJumpFrames \<and>
   list_all (\<lambda>st. 0 \<le> stats_stamina st \<and> stats_stamina st \<le> STAMINA_MAX)
     (snapshots snowEnv (newEngine 0 highDraws) sprintJumpFrames) \<and>
   0 \<le> stamina (run snowEnv (newEngine 0 highDraws) sprintJumpFrames) \<and>
   stamina (run snowEnv (newEngine 0 highDraws) sprintJumpFrames) \<le> STAMINA_MAX"
proof -
  have h: "clockMonotonic 0 sprintJumpFrames"
    by (simp add: sprintJumpFrames_def)
  show ?thesis
    using h stamina_stays_in_range[OF h, of snowEnv highDraws] by (simp add: list_all_iff)
qed

section \<open>The day clock\<close>














section \<open>The flying flag of the snapshot\<close>

lemma foldl_ignore: "foldl (\<lambda>a x. a) a xs = a"
  by (induction xs) simp_all

lemma resolveObstacles_no_chunks: "resolveObstacles [] px pz np = np"
  by (simp add: resolveObstacles_def foldl_ignore)

lemma frame_isFlying:
  "isFlying (fst (frame E s f)) =
     (\<not> playerOnGround (snd (snd (frame E s f))) \<and> stamina (snd (snd (frame E s f))) < STAMINA_MAX)"
  by (simp add: frame_def animate_stats)

lemma frame_afterPhysics:
  "stamina (snd (snd (frame E s f))) =
     stamina (afterPhysics E (now f) (s\<lparr>keysPressed := keys f, rotation_y := yaw f\<rparr>))"
  "playerOnGround (snd (snd (frame E s f))) =
     playerOnGround (afterPhysics E (now f) (s\<lparr>keysPressed := keys f, rotation_y := yaw f\<rparr>))"
  by (simp_all add: frame_def animate_engine)

lemma first_sprint_frame:
  "stamina (snd (snd (frame snowEnv (newEngine 0 g) sprintFrame))) = 99"
  "\<not> playerOnGround (snd (snd (frame snowEnv (newEngine 0 g) sprintFrame)))"
  by (simp_all add: frame_afterPhysics sprintFrame_def afterPhysics_def frameDelta_def
      updatePhysics_def newEngine_def noKeys_def
      Let_def split_def STAMINA_MAX_def FLIGHT_COST_def REGEN_RATE_def CHUNK_SIZE_def
      resolveObstacles_no_chunks snowEnv_def flatEnv_def lengthSq_def normalize_vec_def)

lemma first_sprint_no_lift: "\<not> liftInFrame (newEngine 0 g) sprintFrame"
  by (simp add: liftInFrame_def sustainedLift_def sprintFrame_def noKeys_def Let_def)

lemma staminaAfterSprint_upper:
  assumes "0 \<le> delta" "stamina s \<le> STAMINA_MAX"
  shows "staminaAfterSprint delta s \<le> STAMINA_MAX"
proof -
  have a: "0 \<le> FLIGHT_COST * delta * 0.4" "0 \<le> REGEN_RATE * delta" "0 \<le> STAMINA_MAX"
    using assms(1) by (simp_all add: FLIGHT_COST_def REGEN_RATE_def STAMINA_MAX_def)
  show ?thesis
    using assms(2) a unfolding staminaAfterSprint_def by auto
qed

lemma first_jump_frame:
  "\<not> playerOnGround (snd (snd (frame snowEnv (newEngine 0 g) jumpFrame)))"
  by (simp_all add: frame_afterPhysics jumpFrame_def afterPhysics_def frameDelta_def
      updatePhysics_def newEngine_def noKeys_def
      Let_def split_def STAMINA_MAX_def FLIGHT_COST_def REGEN_RATE_def CHUNK_SIZE_def
      resolveObstacles_no_chunks snowEnv_def flatEnv_def lengthSq_def normalize_vec_def)

lemma first_jump_lift: "liftInFrame (newEngine 0 g) jumpFrame"
  by (simp add: liftInFrame_def sustainedLift_def jumpFrame_def newEngine_def noKeys_def
      STAMINA_MAX_def Let_def)

text \<open>
  C3, as stated, fails. In the first frame, 100 ms long, with only sprint held, the
  sprint drain leaves stamina 99 and the observer is falling: the snapshot's
  \<open>isFlying\<close> is true although jump is not held and no lift was applied.
\<close>

theorem isFlying_without_lift:
  "isFlying (fst (frame snowEnv (newEngine 0 highDraws) sprintFrame)) \<and>
   \<not> JUMP (keys sprintFrame) \<and>
   \<not> liftInFrame (newEngine 0 highDraws) sprintFrame"
proof (intro conjI)
  show "isFlying (fst (frame snowEnv (newEngine 0 highDraws) sprintFrame))"
    by (simp add: frame_isFlying first_sprint_frame STAMINA_MAX_def)
  show "\<not> JUMP (keys sprintFrame)"
    by (simp add: sprintFrame_def noKeys_def)
  show "\<not> liftInFrame (newEngine 0 highDraws) sprintFrame"
    by (rule first_sprint_no_lift)
qed

text \<open>
  C3, amended: in every per-tick snapshot \<open>isFlying\<close> is true exactly when, after the
  tick, the observer is not grounded and stamina is below \<open>STAMINA_MAX\<close>. So it is
  true in every tick of positive duration in which sustained lift was applied and
  which ends airborne (the lift drain has taken stamina below the maximum).
\<close>

theorem isFlying_airborne_and_drained:
  "isFlying (fst (frame E s f)) =
     (\<not> playerOnGround (snd (snd (frame E s f))) \<and>
      stamina (snd (snd (frame E s f))) < STAMINA_MAX) \<and>
   (liftInFrame s f \<and> lastTime s < now f \<and> stamina s \<le> STAMINA_MAX \<and>
    \<not> playerOnGround (snd (snd (frame E s f))) \<longrightarrow> isFlying (fst (frame E s f)))"
proof (intro conjI impI)
  show fl: "isFlying (fst (frame E s f)) =
     (\<not> playerOnGround (snd (snd (frame E s f))) \<and>
      stamina (snd (snd (frame E s f))) < STAMINA_MAX)"
    by (rule frame_isFlying)
  assume a: "liftInFrame s f \<and> lastTime s < now f \<and> stamina s \<le> STAMINA_MAX \<and>
    \<not> playerOnGround (snd (snd (frame E s f)))"
  let ?s = "s\<lparr>keysPressed := keys f, rotation_y := yaw f\<rparr>"
  let ?d = "frameDelta (now f) ?s"
  have d: "0 < ?d" using a by (simp add: frameDelta_def)
  have lift: "sustainedLift ?d (?s\<lparr>lastTime := now f\<rparr>)"
    using a by (simp add: liftInFrame_def frameDelta_def)
  have "staminaAfterSprint ?d (?s\<lparr>lastTime := now f\<rparr>) \<le> STAMINA_MAX"
    using a d by (intro staminaAfterSprint_upper) simp_all
  moreover have "0 < FLIGHT_COST * ?d" using d by (simp add: FLIGHT_COST_def)
  ultimately have "stamina (snd (snd (frame E s f))) < STAMINA_MAX"
    using lift by (simp add: frame_afterPhysics afterPhysics_def stamina_updatePhysics)
  with a show "isFlying (fst (frame E s f))" by (simp add: fl)
qed

theorem isFlying_airborne_and_drained_witness:
  "liftInFrame (newEngine 0 highDraws) jumpFrame \<and>
   lastTime (newEngine 0 highDraws) < now jumpFrame \<and>
   stamina (newEngine 0 highDraws) \<le> STAMINA_MAX \<and>
   \<not> playerOnGround (snd (snd (frame snowEnv (newEngine 0 highDraws) jumpFrame))) \<and>
   isFlying (fst (frame snowEnv (newEngine 0 highDraws) jumpFrame))"
proof -
  have h: "liftInFrame (newEngine 0 highDraws) jumpFrame \<and>
   lastTime (newEngine 0 highDraws) < now jumpFrame \<and>
   stamina (newEngine 0 highDraws) \<le> STAMINA_MAX \<and>
   \<not> playerOnGround (snd (snd (frame snowEnv (newEngine 0 highDraws) jumpFrame)))"
    using first_jump_frame[of highDraws] first_jump_lift[of highDraws]
    by (simp add: jumpFrame_def newEngine_def STAMINA_MAX_def)
  with isFlying_airborne_and_drained[of snowEnv "newEngine 0 highDraws" jumpFrame] show ?thesis by blast
qed


section \<open>Obstacle resolution\<close>

lemma checkCollision_unfold:
  "checkCollision obs p =
     (if centerDistance obs p < \<bar>minDist obs\<bar> \<and> centerDistance obs p > 0.001
      then (fst p + ((fst p - obs_x obs) / centerDistance obs p) * (minDist obs - centerDistance obs p),
            snd p + ((snd p - obs_z obs) / centerDistance obs p) * (minDist obs - centerDistance obs p))
      else p)"
proof -
  obtain nx nz where p: "p = (nx, nz)" by (cases p)
  let ?q = "(nx - obs_x obs) * (nx - obs_x obs) + (nz - obs_z obs) * (nz - obs_z obs)"
  have "(?q < minDist obs * minDist obs) = (sqrt ?q < \<bar>minDist obs\<bar>)"
  proof -
    have "sqrt (minDist obs * minDist obs) = \<bar>minDist obs\<bar>" by simp
    then show ?thesis by (metis real_sqrt_less_iff)
  qed
  then show ?thesis
    by (simp add: checkCollision_def centerDistance_def minDist_def p Let_def)
qed

lemma pushed_distance:
  assumes "0 < d" "d = sqrt (a * a + b * b)"
  shows "sqrt ((a + a / d * (m - d)) * (a + a / d * (m - d)) +
               (b + b / d * (m - d)) * (b + b / d * (m - d))) = \<bar>m\<bar>"
proof -
  have a: "a + a / d * (m - d) = a * (m / d)" and b: "b + b / d * (m - d) = b * (m / d)"
    using assms(1) by (simp_all add: field_simps)
  have e: "(a * k) * (a * k) + (b * k) * (b * k) = (a * a + b * b) * (k * k)" for k :: real
    by (simp add: algebra_simps)
  have "sqrt ((a * (m / d)) * (a * (m / d)) + (b * (m / d)) * (b * (m / d))) =
      sqrt ((a * a + b * b) * ((m / d) * (m / d)))"
    by (simp only: e)
  also have "\<dots> = sqrt (a * a + b * b) * sqrt ((m / d) * (m / d))"
    by (rule real_sqrt_mult)
  also have "\<dots> = d * \<bar>m / d\<bar>"
    by (simp only: real_sqrt_abs2 assms(2)[symmetric])
  also have "\<dots> = \<bar>m\<bar>" using assms(1) by (simp add: abs_divide)
  finally show ?thesis unfolding a b .
qed

lemma checkCollision_pushed:
  assumes "centerDistance obs p < \<bar>minDist obs\<bar>" "centerDistance obs p > 0.001"
  shows "centerDistance obs (checkCollision obs p) = \<bar>minDist obs\<bar>"
proof -
  define d where "d = centerDistance obs p"
  define a where "a = fst p - obs_x obs"
  define b where "b = snd p - obs_z obs"
  define m where "m = minDist obs"
  have d: "0 < d" using assms(2) by (simp add: d_def)
  have dd: "d = sqrt (a * a + b * b)" by (simp add: d_def a_def b_def centerDistance_def)
  have q: "checkCollision obs p = (fst p + a / d * (m - d), snd p + b / d * (m - d))"
    using assms by (simp add: checkCollision_unfold d_def a_def b_def m_def)
  have "centerDistance obs (checkCollision obs p) =
      sqrt ((a + a / d * (m - d)) * (a + a / d * (m - d)) +
            (b + b / d * (m - d)) * (b + b / d * (m - d)))"
    unfolding q centerDistance_def a_def b_def by (simp add: algebra_simps)
  then show ?thesis using pushed_distance[OF d dd, of m] by (simp add: m_def)
qed

lemma checkCollision_clears:
  assumes "centerDistance obs p > 0.001"
  shows "minDist obs \<le> centerDistance obs (checkCollision obs p)"
proof (cases "centerDistance obs p < \<bar>minDist obs\<bar>")
  case False
  then have "checkCollision obs p = p"
    by (simp only: checkCollision_unfold[of obs p] simp_thms if_False)
  with False show ?thesis by simp
next
  case True
  then show ?thesis using checkCollision_pushed[OF True assms] by simp
qed




















section \<open>Chunk generation: what does not depend on Math.random\<close>

lemma terrainVertex_heights:
  "fst (terrainVertex E cwx cwz v acc) = fst acc @ [getHeight E (fst v + cwx) (snd v + cwz)]"
  by (simp add: terrainVertex_def Let_def split_def)

lemma terrain_fold_heights:
  "fst (foldl (\<lambda>acc v. terrainVertex E cwx cwz v acc) acc vs) =
   fst acc @ map (\<lambda>v. getHeight E (fst v + cwx) (snd v + cwz)) vs"
  by (induction vs arbitrary: acc) (simp_all add: terrainVertex_heights)

lemma terrainLoop_heights:
  "fst (terrainLoop E cwx cwz g) = map (\<lambda>v. getHeight E (fst v + cwx) (snd v + cwz)) (planeVertices E)"
  by (simp add: terrainLoop_def terrain_fold_heights)

lemma mergeAndAdd_list:
  "(case mergeAndAdd xs mat of Some m \<Rightarrow> [m] | None \<Rightarrow> []) = (if xs = [] then [] else [mat xs])"
  by (simp add: mergeAndAdd_def)

lemma if_nonempty: "(if xs \<noteq> [] then a else b) = (if xs = [] then b else a)"
  by simp

lemma monolith_pair:
  "(if a then (if b then (X, Y) else ([], [])) else ([], [])) =
   (if a \<and> b then X else [], if a \<and> b then Y else [])"
  by simp

lemma generateChunk_colliders:
  "chunkColliders (fst (generateChunk E chunkX chunkZ g)) =
     TerrainMesh (fst (terrainLoop E (of_int chunkX * CHUNK_SIZE) (of_int chunkZ * CHUNK_SIZE) g)) #
     (if stones (scattered E chunkX chunkZ g) = [] then []
      else [StoneMesh (stones (scattered E chunkX chunkZ g))])"
  apply (simp only: generateChunk_def Let_def split_def scattered_def monolithPlaced_def)
  apply (simp add: mergeAndAdd_list monolith_pair split del: if_split cong: if_cong)
  done

lemma generateChunk_children:
  "children (fst (generateChunk E chunkX chunkZ g)) =
   (let t = terrainLoop E (of_int chunkX * CHUNK_SIZE) (of_int chunkZ * CHUNK_SIZE) g;
        geos = scattered E chunkX chunkZ g
    in [TerrainMesh (fst t)] @
       (if fst (snd t) = [] then [] else [GrassMesh (fst (snd t))]) @
       (if fst (snd (snd t)) = [] then [] else [SakuraGrassMesh (fst (snd (snd t)))]) @
       (if monolithPlaced E chunkX chunkZ
        then [MonolithMesh 0 (getHeight E (of_int chunkX * CHUNK_SIZE) (of_int chunkZ * CHUNK_SIZE) - 3) 0]
        else []) @
       (if trunks geos = [] then [] else [TrunkMesh (trunks geos)]) @
       (if oakLeaves geos = [] then [] else [OakLeafMesh (oakLeaves geos)]) @
       (if pineLeaves geos = [] then [] else [PineLeafMesh (pineLeaves geos)]) @
       (if sakuraLeaves geos = [] then [] else [SakuraLeafMesh (sakuraLeaves geos)]) @
       (if cacti geos = [] then [] else [CactusMesh (cacti geos)]) @
       (if stones geos = [] then [] else [StoneMesh (stones geos)]))"
proof -
  have mf: "List.map_filter id [a, b, c, d, e, f] =
      (case a of Some m \<Rightarrow> [m] | None \<Rightarrow> []) @ (case b of Some m \<Rightarrow> [m] | None \<Rightarrow> []) @
      (case c of Some m \<Rightarrow> [m] | None \<Rightarrow> []) @ (case d of Some m \<Rightarrow> [m] | None \<Rightarrow> []) @
      (case e of Some m \<Rightarrow> [m] | None \<Rightarrow> []) @ (case f of Some m \<Rightarrow> [m] | None \<Rightarrow> [])"
    for a b c d e f :: "Object3D option"
    by (simp add: List.map_filter_simps split: option.splits)
  show ?thesis
    apply (simp only: generateChunk_def Let_def split_def scattered_def monolithPlaced_def mf)
    apply (simp add: mergeAndAdd_list monolith_pair if_nonempty split del: if_split cong: if_cong)
    done
qed

lemma generateChunk_heights:
  "terrainHeights (fst (generateChunk E chunkX chunkZ g)) =
   map (\<lambda>v. getHeight E (fst v + of_int chunkX * CHUNK_SIZE) (snd v + of_int chunkZ * CHUNK_SIZE))
     (planeVertices E)"
  by (simp add: terrainHeights_def generateChunk_children Let_def terrainLoop_heights)

lemma generateChunk_poi:
  "list_ex isPOI (children (fst (generateChunk E chunkX chunkZ g))) = monolithPlaced E chunkX chunkZ"
  by (simp add: generateChunk_children Let_def isPOI_def)

text \<open>
  C9: generation is reproducible. \<^verbatim>\<open>getHeight\<close> reads the noise functions only, so
  it is a function of \<open>(x, z)\<close>. For every chunk coordinate, whatever the state of
  \<^verbatim>\<open>Math.random()\<close> at the two calls, \<^verbatim>\<open>generateChunk\<close> produces the same
  per-vertex height array, namely \<^verbatim>\<open>getHeight\<close> at every vertex, and the same
  monolith presence, which holds exactly when \<open>seededRandom\<close> of the chunk seed
  \<open>chunkX \<times> 49297 + chunkZ \<times> 92713\<close> exceeds 0.97 and the height at the chunk's
  local origin exceeds \<open>WATER_LEVEL + 2\<close>.
\<close>

theorem generateChunk_reproducible:
  "terrainHeights (fst (generateChunk E chunkX chunkZ g1)) =
     terrainHeights (fst (generateChunk E chunkX chunkZ g2)) \<and>
   terrainHeights (fst (generateChunk E chunkX chunkZ g1)) =
     map (\<lambda>v. getHeight E (fst v + of_int chunkX * CHUNK_SIZE) (snd v + of_int chunkZ * CHUNK_SIZE))
       (planeVertices E) \<and>
   list_ex isPOI (children (fst (generateChunk E chunkX chunkZ g1))) =
     list_ex isPOI (children (fst (generateChunk E chunkX chunkZ g2))) \<and>
   list_ex isPOI (children (fst (generateChunk E chunkX chunkZ g1))) =
     (seededRandom (of_int chunkX * 49297 + of_int chunkZ * 92713) > 0.97 \<and>
      getHeight E (of_int chunkX * CHUNK_SIZE) (of_int chunkZ * CHUNK_SIZE) > WATER_LEVEL + 2)"
  by (simp only: generateChunk_heights generateChunk_poi monolithPlaced_def simp_thms)

section \<open>Colliders for the ground ray\<close>

lemma generateChunk_ground: "list_all isGround (chunkColliders (fst (generateChunk E chunkX chunkZ g)))"
  by (simp add: generateChunk_colliders isGround_def)

lemma generateChunk_colliders_children:
  "list_all (\<lambda>c. c \<in> set (children (fst (generateChunk E chunkX chunkZ g))))
     (chunkColliders (fst (generateChunk E chunkX chunkZ g)))"
  by (simp add: generateChunk_colliders generateChunk_children Let_def)

lemma groundOnly_unloadChunk: "groundOnly s \<Longrightarrow> groundOnly (unloadChunk px pz s e)"
  by (cases e) (auto simp: unloadChunk_def groundOnly_def list_all_iff split: prod.splits)

lemma groundOnly_unload_fold: "groundOnly s \<Longrightarrow> groundOnly (foldl (unloadChunk px pz) s es)"
  by (induction es arbitrary: s) (simp_all add: groundOnly_unloadChunk)

lemma colliders_scanChild: "colliders (fst (scanChild gp acc c)) = colliders (fst acc)"
  by (cases acc; cases c) (simp_all add: scanChild_def Let_def split_def)

lemma colliders_scan_fold: "colliders (fst (foldl (scanChild gp) acc cs)) = colliders (fst acc)"
  by (induction cs arbitrary: acc) (simp_all add: colliders_scanChild)

lemma colliders_scan_phase:
  "colliders (fst (case m of None \<Rightarrow> (s1, b)
       | Some data \<Rightarrow> foldl (scanChild (mesh_position data)) (s1, b) (mesh_children data))) =
   colliders s1"
  by (cases m) (simp_all add: colliders_scan_fold)

lemma groundOnly_loadChunk:
  assumes "groundOnly (fst acc)"
  shows "groundOnly (fst (loadChunk E px pz x z acc))"
proof -
  obtain s b where acc: "acc = (s, b)" by (cases acc)
  have "colliders (fst (loadChunk E px pz x z acc)) =
      (if map_of (chunks s) (px + x, pz + z) = None
       then colliders s @ map (Pair (nextId s))
              (chunkColliders (fst (generateChunk E (px + x) (pz + z) (random s))))
       else colliders s)"
    unfolding loadChunk_def acc
    by (simp only: Let_def split_def prod.case colliders_scan_phase fst_conv snd_conv) simp
  then show ?thesis
    using assms generateChunk_ground[of E "px + x" "pz + z" "random s"]
    by (auto simp: groundOnly_def acc list_all_iff)
qed

lemma groundOnly_load_inner:
  "groundOnly (fst acc) \<Longrightarrow>
   groundOnly (fst (foldl (\<lambda>acc z. loadChunk E px pz x z acc) acc zs))"
  by (induction zs arbitrary: acc) (simp_all add: groundOnly_loadChunk)

lemma groundOnly_load_outer:
  "groundOnly (fst acc) \<Longrightarrow>
   groundOnly (fst (foldl (\<lambda>acc x. foldl (\<lambda>acc z. loadChunk E px pz x z acc) acc zs) acc xs))"
  by (induction xs arbitrary: acc) (simp_all add: groundOnly_load_inner)

lemma groundOnly_updateChunks:
  assumes "groundOnly s"
  shows "groundOnly (fst (updateChunks E s))"
proof -
  obtain x y z where pos: "position s = (x, y, z)" by (cases "position s") auto
  have "groundOnly (foldl (unloadChunk \<lfloor>x / CHUNK_SIZE\<rfloor> \<lfloor>z / CHUNK_SIZE\<rfloor>) s (chunks s)
      \<lparr>poiNearby := None\<rparr>)"
    using groundOnly_unload_fold[OF assms, of "\<lfloor>x / CHUNK_SIZE\<rfloor>" "\<lfloor>z / CHUNK_SIZE\<rfloor>" "chunks s"]
    by (simp add: groundOnly_def)
  then show ?thesis
    by (simp add: updateChunks_def pos Let_def groundOnly_load_outer)
qed

lemma colliders_updatePhysics: "colliders (updatePhysics E delta s) = colliders s"
  by (simp add: updatePhysics_def Let_def split_def)

lemma groundOnly_frame:
  assumes "groundOnly s"
  shows "groundOnly (snd (snd (frame E s f)))"
proof -
  let ?p = "updatePhysics E (min ((now f - lastTime s) / 1000) 0.1)
      (s\<lparr>keysPressed := keys f, rotation_y := yaw f, lastTime := now f\<rparr>)"
  have "groundOnly ?p"
    using assms by (simp add: groundOnly_def colliders_updatePhysics)
  then have "groundOnly (fst (updateChunks E ?p))" by (rule groundOnly_updateChunks)
  then show ?thesis
    by (simp add: frame_def animate_def Let_def split_def updateDayNight_def groundOnly_def)
qed

lemma groundOnly_run: "groundOnly s \<Longrightarrow> groundOnly (run E s fs)"
proof (induction fs arbitrary: s)
  case Nil
  then show ?case by simp
next
  case (Cons f fs)
  obtain st b s' where fr: "frame E s f = (st, b, s')" by (cases "frame E s f") auto
  have "groundOnly s'" using groundOnly_frame[OF Cons.prems, of E f] by (simp add: fr)
  from Cons.IH[OF this] show ?case by (simp add: fr)
qed

text \<open>
  C10: for every generated chunk the collider list is the terrain mesh followed, only
  when the scatter loops produced at least one stone, by the single merged stone mesh;
  every collider is terrain or stone (never trunks, leaves, cacti, grass or the
  monolith) and is a child of the chunk group. Hence after any sequence of frames every
  collider that the engine hands to the ground ray is a terrain mesh or a stone mesh.
\<close>

theorem colliders_are_terrain_and_stones:
  "chunkColliders (fst (generateChunk E chunkX chunkZ g)) =
     TerrainMesh (terrainHeights (fst (generateChunk E chunkX chunkZ g))) #
     (if stones (scattered E chunkX chunkZ g) = [] then []
      else [StoneMesh (stones (scattered E chunkX chunkZ g))]) \<and>
   list_all isGround (chunkColliders (fst (generateChunk E chunkX chunkZ g))) \<and>
   list_all (\<lambda>c. c \<in> set (children (fst (generateChunk E chunkX chunkZ g))))
     (chunkColliders (fst (generateChunk E chunkX chunkZ g))) \<and>
   list_all (\<lambda>c. isGround (snd c)) (colliders (run E (newEngine t0 g0) fs))"
proof -
  have "groundOnly (newEngine t0 g0)" by (simp add: groundOnly_def newEngine_def)
  then have "groundOnly (run E (newEngine t0 g0) fs)" by (rule groundOnly_run)
  moreover have "terrainHeights (fst (generateChunk E chunkX chunkZ g)) =
      fst (terrainLoop E (of_int chunkX * CHUNK_SIZE) (of_int chunkZ * CHUNK_SIZE) g)"
    by (simp add: generateChunk_heights terrainLoop_heights)
  ultimately show ?thesis
    using generateChunk_ground[of E chunkX chunkZ g]
      generateChunk_colliders_children[of E chunkX chunkZ g]
    by (simp add: generateChunk_colliders groundOnly_def)
qed


section \<open>Lore service: failures are replaced by placeholders\<close>



end
